theory Spec2Isabelle
  imports Complex_Main
begin

section \<open>Data model (src/types/index.ts)\<close>

text \<open>
  JavaScript numbers are modelled as follows. A number that the engine computes is a
  \<open>jsnum\<close>: a real number (the arithmetic of the source without rounding), one of the
  two infinities, or \<^verbatim>\<open>NaN\<close>; the operations on it are those of the source's
  operators on these values (section ``JavaScript numbers''), where a zero is not given
  a sign. A number that is an input (a preference ratio, a capacity, a number of
  minutes) is a finite \<^typ>\<open>real\<close> of either sign: the components read minutes with
  \<^verbatim>\<open>Number.parseInt\<close>, which yields a finite integer or \<^verbatim>\<open>NaN\<close>, and check no
  sign. Where the source tests such a field for truthiness (minutes, capacity), a
  \<^verbatim>\<open>NaN\<close> behaves as the absent field does, so \<^term>\<open>None\<close> stands for it as well.
  Counters and array lengths are \<^typ>\<open>nat\<close>;
  timestamps are \<^typ>\<open>int\<close> milliseconds since the epoch, that is the value of
  \<^verbatim>\<open>new Date(s).getTime()\<close> for a date string \<^verbatim>\<open>s\<close> that parses. An optional field
  is an \<^typ>\<open>'a option\<close>, \<^term>\<open>None\<close> for \<^verbatim>\<open>undefined\<close>.
\<close>

datatype TaskType = LOW | MID | HIGH

fun tierName :: "TaskType \<Rightarrow> string" where
  "tierName LOW = ''LOW''"
| "tierName MID = ''MID''"
| "tierName HIGH = ''HIGH''"

text \<open>\<^verbatim>\<open>PriorityScale = 1 | 2 | ... | 10\<close>: a natural number, well formed between 1 and 10.\<close>

type_synonym PriorityScale = nat

definition validPriority :: "PriorityScale \<Rightarrow> bool" where
  "validPriority p = (1 \<le> p \<and> p \<le> 10)"

text \<open>
  Of a subtask the engine reads the completion flag, the tier label and the optional
  priority; the other fields of the interface (name, description, dates, minutes,
  blockedBy) are never read by the functions modelled here and are left out.
\<close>

record SubTask =
  sub_completed :: bool
  sub_type :: string
  sub_priority :: "PriorityScale option"

record Task =
  startDateTime :: int
  endDateTime :: int
  completed :: bool
  type :: string
  priority :: "PriorityScale option"
  subTasks :: "SubTask list option"
  estimatedMinutes :: "real option"
  actualMinutes :: "real option"
  blockedBy :: "string list option"
  collaborators :: "string list option"

record HourRange =
  range_start :: int
  range_end :: int

record WeightPreferences =
  pref_deadline :: real
  pref_priority :: real
  pref_complexity :: real

record UserPreferences =
  productiveHours :: "HourRange list option"
  workloadCapacity :: "real option"
  weightPreferences :: "WeightPreferences option"

record User =
  tasks :: "Task list"
  preferences :: "UserPreferences option"

record WorkloadMetrics =
  dailyCapacity :: real
  currentLoad :: nat
  overloadFactor :: real
  upcomingDeadlines :: nat
  wl_blockedTasks :: nat

text \<open>
  The ambient clock read by \<^verbatim>\<open>new Date()\<close>: the instant in milliseconds and the
  offset of local time from UTC in milliseconds (a fixed offset: no change of
  daylight-saving time within the three days the engine looks ahead).
\<close>

record Clock =
  now :: int
  tzOffset :: int

record DateRange =
  dr_start :: int
  dr_end :: int

section \<open>JavaScript idioms\<close>

definition msPerHour :: int where
  "msPerHour = 1000 * 60 * 60"

definition msPerDay :: int where
  "msPerDay = 1000 * 60 * 60 * 24"

text \<open>\<^verbatim>\<open>xs && xs.length > 0\<close> for an optional array.\<close>

fun nonEmpty :: "'a list option \<Rightarrow> bool" where
  "nonEmpty None = False"
| "nonEmpty (Some xs) = (length xs > 0)"

text \<open>\<^verbatim>\<open>xs || []\<close> for an optional array.\<close>

fun orEmpty :: "'a list option \<Rightarrow> 'a list" where
  "orEmpty None = []"
| "orEmpty (Some xs) = xs"

text \<open>Truthiness of an optional number: present and not zero.\<close>

fun truthyReal :: "real option \<Rightarrow> bool" where
  "truthyReal None = False"
| "truthyReal (Some x) = (x \<noteq> 0)"

text \<open>The number held by an optional field that was found truthy.\<close>

fun numberOf :: "real option \<Rightarrow> real" where
  "numberOf None = 0"
| "numberOf (Some x) = x"

text \<open>\<^verbatim>\<open>x || d\<close> for an optional number.\<close>

fun realOr :: "real option \<Rightarrow> real \<Rightarrow> real" where
  "realOr None d = d"
| "realOr (Some x) d = (if x \<noteq> 0 then x else d)"

text \<open>\<^verbatim>\<open>now.getHours()\<close>: the hour of the day in local time.\<close>

definition getHours :: "Clock \<Rightarrow> int" where
  "getHours clk = ((now clk + tzOffset clk) mod msPerDay) div msPerHour"

text \<open>
  \<^verbatim>\<open>tomorrow.setDate(tomorrow.getDate() + 1); tomorrow.setHours(23, 59, 59, 999)\<close>:
  the last millisecond of the next local calendar day.
\<close>

definition endOfTomorrow :: "Clock \<Rightarrow> int" where
  "endOfTomorrow clk =
     ((now clk + tzOffset clk) div msPerDay + 1) * msPerDay + (msPerDay - 1) - tzOffset clk"

text \<open>\<^verbatim>\<open>threeDaysFromNow.setDate(threeDaysFromNow.getDate() + 3)\<close>: same local time, three days on.\<close>

definition threeDaysFromNow :: "Clock \<Rightarrow> int" where
  "threeDaysFromNow clk = now clk + 3 * msPerDay"

section \<open>JavaScript numbers\<close>

text \<open>
  The values of the type \<^verbatim>\<open>number\<close> and the operators the engine applies to them,
  as ECMAScript defines them on the infinities and on \<^verbatim>\<open>NaN\<close>. A division by a zero
  takes the zero as \<^verbatim>\<open>+0\<close>.
\<close>

datatype jsnum = Fin real | PosInf | NegInf | NaN

text \<open>\<^verbatim>\<open>x + y\<close> on numbers.\<close>

fun jsAdd :: "jsnum \<Rightarrow> jsnum \<Rightarrow> jsnum" where
  "jsAdd (Fin a) (Fin b) = Fin (a + b)"
| "jsAdd (Fin a) PosInf = PosInf"
| "jsAdd (Fin a) NegInf = NegInf"
| "jsAdd PosInf (Fin b) = PosInf"
| "jsAdd PosInf PosInf = PosInf"
| "jsAdd PosInf NegInf = NaN"
| "jsAdd NegInf (Fin b) = NegInf"
| "jsAdd NegInf PosInf = NaN"
| "jsAdd NegInf NegInf = NegInf"
| "jsAdd NaN y = NaN"
| "jsAdd x NaN = NaN"

text \<open>\<^verbatim>\<open>-x\<close> and \<^verbatim>\<open>x - y\<close>.\<close>

fun jsNeg :: "jsnum \<Rightarrow> jsnum" where
  "jsNeg (Fin a) = Fin (- a)"
| "jsNeg PosInf = NegInf"
| "jsNeg NegInf = PosInf"
| "jsNeg NaN = NaN"

definition jsSub :: "jsnum \<Rightarrow> jsnum \<Rightarrow> jsnum" where
  "jsSub x y = jsAdd x (jsNeg y)"

text \<open>\<^verbatim>\<open>x * y\<close>: an infinity times zero is \<^verbatim>\<open>NaN\<close>.\<close>

fun jsMul :: "jsnum \<Rightarrow> jsnum \<Rightarrow> jsnum" where
  "jsMul (Fin a) (Fin b) = Fin (a * b)"
| "jsMul (Fin a) PosInf = (if a = 0 then NaN else if 0 < a then PosInf else NegInf)"
| "jsMul (Fin a) NegInf = (if a = 0 then NaN else if 0 < a then NegInf else PosInf)"
| "jsMul PosInf (Fin b) = (if b = 0 then NaN else if 0 < b then PosInf else NegInf)"
| "jsMul NegInf (Fin b) = (if b = 0 then NaN else if 0 < b then NegInf else PosInf)"
| "jsMul PosInf PosInf = PosInf"
| "jsMul PosInf NegInf = NegInf"
| "jsMul NegInf PosInf = NegInf"
| "jsMul NegInf NegInf = PosInf"
| "jsMul NaN y = NaN"
| "jsMul x NaN = NaN"

text \<open>
  \<^verbatim>\<open>x / y\<close>: a nonzero number over zero is an infinity, zero over zero and an infinity
  over an infinity are \<^verbatim>\<open>NaN\<close>, a finite number over an infinity is zero.
\<close>

fun jsDiv :: "jsnum \<Rightarrow> jsnum \<Rightarrow> jsnum" where
  "jsDiv (Fin a) (Fin b) =
     (if b \<noteq> 0 then Fin (a / b)
      else if a = 0 then NaN else if 0 < a then PosInf else NegInf)"
| "jsDiv (Fin a) PosInf = Fin 0"
| "jsDiv (Fin a) NegInf = Fin 0"
| "jsDiv PosInf (Fin b) = (if 0 \<le> b then PosInf else NegInf)"
| "jsDiv NegInf (Fin b) = (if 0 \<le> b then NegInf else PosInf)"
| "jsDiv PosInf PosInf = NaN"
| "jsDiv PosInf NegInf = NaN"
| "jsDiv NegInf PosInf = NaN"
| "jsDiv NegInf NegInf = NaN"
| "jsDiv NaN y = NaN"
| "jsDiv x NaN = NaN"

text \<open>\<^verbatim>\<open>Math.abs(x)\<close>.\<close>

fun mathAbs :: "jsnum \<Rightarrow> jsnum" where
  "mathAbs (Fin a) = Fin \<bar>a\<bar>"
| "mathAbs PosInf = PosInf"
| "mathAbs NegInf = PosInf"
| "mathAbs NaN = NaN"

text \<open>\<^verbatim>\<open>Math.min(x, y)\<close>: \<^verbatim>\<open>NaN\<close> when an argument is \<^verbatim>\<open>NaN\<close>.\<close>

fun mathMin :: "jsnum \<Rightarrow> jsnum \<Rightarrow> jsnum" where
  "mathMin (Fin a) (Fin b) = Fin (min a b)"
| "mathMin (Fin a) PosInf = Fin a"
| "mathMin (Fin a) NegInf = NegInf"
| "mathMin PosInf (Fin b) = Fin b"
| "mathMin PosInf PosInf = PosInf"
| "mathMin PosInf NegInf = NegInf"
| "mathMin NegInf (Fin b) = NegInf"
| "mathMin NegInf PosInf = NegInf"
| "mathMin NegInf NegInf = NegInf"
| "mathMin NaN y = NaN"
| "mathMin x NaN = NaN"

text \<open>
  \<^verbatim>\<open>Math.pow(x, 1.2)\<close>: \<^verbatim>\<open>NaN\<close> for a negative finite base, since the exponent is
  not an integer; positive infinity for both infinities.
\<close>

fun mathPow12 :: "jsnum \<Rightarrow> jsnum" where
  "mathPow12 (Fin a) = (if a < 0 then NaN else Fin (a powr (12 / 10)))"
| "mathPow12 PosInf = PosInf"
| "mathPow12 NegInf = PosInf"
| "mathPow12 NaN = NaN"

text \<open>\<^verbatim>\<open>Math.round\<close>: the nearest integer, a half rounded up.\<close>

definition mathRound :: "real \<Rightarrow> int" where
  "mathRound x = \<lfloor>x + 1 / 2\<rfloor>"

fun jsRound :: "jsnum \<Rightarrow> jsnum" where
  "jsRound (Fin a) = Fin (real_of_int (mathRound a))"
| "jsRound PosInf = PosInf"
| "jsRound NegInf = NegInf"
| "jsRound NaN = NaN"

text \<open>\<^verbatim>\<open>x > 0\<close>: false for \<^verbatim>\<open>NaN\<close>.\<close>

fun jsPositive :: "jsnum \<Rightarrow> bool" where
  "jsPositive (Fin a) = (0 < a)"
| "jsPositive PosInf = True"
| "jsPositive NegInf = False"
| "jsPositive NaN = False"

section \<open>Weight model (src/lib/calculate-rtp.tsx, lines 4-18 and 140-222)\<close>

text \<open>
  What \<open>getPriorityWeight\<close> returns: a number, or a member of \<^verbatim>\<open>Object.prototype\<close>
  (a function or an object), named by its key.
\<close>

datatype WeightValue = NumberValue nat | ObjectMember string

text \<open>
  The keys that every object inherits from \<^verbatim>\<open>Object.prototype\<close>; each of them holds a
  function, \<^verbatim>\<open>__proto__\<close> an object.
\<close>

definition objectPrototypeKeys :: "string list" where
  "objectPrototypeKeys =
     [''constructor'', ''hasOwnProperty'', ''isPrototypeOf'', ''propertyIsEnumerable'',
      ''toLocaleString'', ''toString'', ''valueOf'', ''__proto__'', ''__defineGetter__'',
      ''__defineSetter__'', ''__lookupGetter__'', ''__lookupSetter__'']"

text \<open>
  \<^verbatim>\<open>BASE_TASK_WEIGHTS[type as TaskType] || 5\<close>: the table has the three keys LOW, MID
  and HIGH. The lookup of another label follows the prototype chain: an inherited key
  yields its member, which is truthy and is returned; any other label is
  \<^verbatim>\<open>undefined\<close> and falls back to 5.
\<close>

definition baseTaskWeight :: "string \<Rightarrow> WeightValue" where
  "baseTaskWeight ty =
     (if ty = ''LOW'' then NumberValue 2
      else if ty = ''MID'' then NumberValue 5
      else if ty = ''HIGH'' then NumberValue 8
      else if ty \<in> set objectPrototypeKeys then ObjectMember ty
      else NumberValue 5)"

text \<open>\<^verbatim>\<open>if (priority) return priority\<close>: an explicit priority is used when it is truthy.\<close>

fun getPriorityWeight :: "PriorityScale option \<Rightarrow> string \<Rightarrow> WeightValue" where
  "getPriorityWeight (Some p) ty = (if p \<noteq> 0 then NumberValue p else baseTaskWeight ty)"
| "getPriorityWeight None ty = baseTaskWeight ty"

text \<open>
  The value as a number, as the operator \<^verbatim>\<open>*\<close> converts its operands: a function or
  an object of \<^verbatim>\<open>Object.prototype\<close> converts to \<^verbatim>\<open>NaN\<close>.
\<close>

fun toNumber :: "WeightValue \<Rightarrow> jsnum" where
  "toNumber (NumberValue n) = Fin (real n)"
| "toNumber (ObjectMember k) = NaN"

definition defaultWeightPreferences :: WeightPreferences where
  "defaultWeightPreferences =
     \<lparr> pref_deadline = 4 / 10, pref_priority = 4 / 10, pref_complexity = 2 / 10 \<rparr>"

text \<open>\<^verbatim>\<open>user.preferences?.weightPreferences || { deadline: 0.4, priority: 0.4, complexity: 0.2 }\<close>\<close>

definition userWeightPreferences :: "User \<Rightarrow> WeightPreferences" where
  "userWeightPreferences user =
     (case preferences user of
        None \<Rightarrow> defaultWeightPreferences
      | Some p \<Rightarrow> (case weightPreferences p of
                     None \<Rightarrow> defaultWeightPreferences
                   | Some w \<Rightarrow> w))"

definition timeRemaining :: "Task \<Rightarrow> Clock \<Rightarrow> int" where
  "timeRemaining task clk = endDateTime task - now clk"

definition totalTaskDuration :: "Task \<Rightarrow> int" where
  "totalTaskDuration task = endDateTime task - startDateTime task"

text \<open>
  \<^verbatim>\<open>Math.max(1, Math.log10(totalTaskDuration / (1000 * 60 * 60 * 24)))\<close>. The source
  computes it for every task and reads it only where the duration is positive.
\<close>

definition durationFactor :: "Task \<Rightarrow> real" where
  "durationFactor task = max 1 (log 10 (real_of_int (totalTaskDuration task) / real_of_int msPerDay))"

text \<open>
  Lines 163-175: the urgency factor starts at 1, is set from the proportion of time
  remaining for a task not yet due, and is overwritten by the capped overdue multiplier
  for an overdue task; \<^verbatim>\<open>totalTaskDuration || 1000 * 60 * 60 * 24\<close> replaces a zero
  duration by one day.
\<close>

definition overdueMultiplier :: "Task \<Rightarrow> Clock \<Rightarrow> real" where
  "overdueMultiplier task clk =
     min 3 (1 + \<bar>real_of_int (timeRemaining task clk)\<bar> /
                real_of_int (if totalTaskDuration task \<noteq> 0 then totalTaskDuration task else msPerDay))"

definition urgencyFactor :: "Task \<Rightarrow> Clock \<Rightarrow> real" where
  "urgencyFactor task clk =
     (let urgency1 =
            (if timeRemaining task clk > 0 \<and> totalTaskDuration task > 0
             then 1 + (1 - real_of_int (timeRemaining task clk) / real_of_int (totalTaskDuration task))
                        * (5 / 10) * durationFactor task
             else 1)
      in if timeRemaining task clk < 0 then overdueMultiplier task clk else urgency1)"

text \<open>Lines 178-188.\<close>

definition complexityFactor :: "Task \<Rightarrow> real" where
  "complexityFactor task =
     (let c1 = (if nonEmpty (subTasks task)
                then 1 + (1 / 10) * real (min 10 (length (orEmpty (subTasks task))))
                else 1)
      in if nonEmpty (collaborators task)
         then c1 + (1 / 10) * real (min 5 (length (orEmpty (collaborators task))))
         else c1)"

text \<open>Lines 191-195: the average of the three terms weighted by the preference ratios.\<close>

definition preferenceWeighted :: "Task \<Rightarrow> User \<Rightarrow> Clock \<Rightarrow> jsnum" where
  "preferenceWeighted task user clk =
     (let baseWeight = toNumber (getPriorityWeight (priority task) (type task));
          prefs = userWeightPreferences user
      in jsDiv
           (jsAdd
              (jsAdd (jsMul baseWeight (Fin (pref_priority prefs)))
                     (jsMul (jsMul baseWeight (Fin (urgencyFactor task clk)))
                            (Fin (pref_deadline prefs))))
              (jsMul (jsMul baseWeight (Fin (complexityFactor task)))
                     (Fin (pref_complexity prefs))))
           (Fin (pref_priority prefs + pref_deadline prefs + pref_complexity prefs)))"

text \<open>Lines 198-208.\<close>

definition isProductiveHour :: "User \<Rightarrow> Clock \<Rightarrow> bool" where
  "isProductiveHour user clk =
     (case preferences user of
        None \<Rightarrow> False
      | Some p \<Rightarrow>
          nonEmpty (productiveHours p) \<and>
          list_ex (\<lambda>r. getHours clk \<ge> range_start r \<and> getHours clk < range_end r)
                  (orEmpty (productiveHours p)))"

text \<open>The weight after step 4 (the productive-hour boost), before the workload step.\<close>

definition weightBeforeWorkload :: "Task \<Rightarrow> User \<Rightarrow> Clock \<Rightarrow> jsnum" where
  "weightBeforeWorkload task user clk =
     (if isProductiveHour user clk
      then jsMul (preferenceWeighted task user clk) (Fin (11 / 10))
      else preferenceWeighted task user clk)"

section \<open>Workload analyzer (lines 279-321)\<close>

text \<open>\<^verbatim>\<open>user.preferences?.workloadCapacity\<close> as a condition: declared and not zero.\<close>

definition capacityDeclared :: "User \<Rightarrow> bool" where
  "capacityDeclared user =
     (case preferences user of None \<Rightarrow> False | Some p \<Rightarrow> truthyReal (workloadCapacity p))"

definition calculateWorkloadMetrics :: "User \<Rightarrow> Clock \<Rightarrow> WorkloadMetrics" where
  "calculateWorkloadMetrics user clk =
     (let tomorrow = endOfTomorrow clk;
          capacity = (case preferences user of
                        None \<Rightarrow> 5
                      | Some p \<Rightarrow> realOr (workloadCapacity p) 5);
          upcomingTasks = filter (\<lambda>t. endDateTime t \<le> tomorrow \<and> \<not> completed t) (tasks user);
          blocked = length (filter (\<lambda>t. \<not> completed t \<and> nonEmpty (blockedBy t)) (tasks user));
          load = length upcomingTasks;
          deadlines = length (filter (\<lambda>t. endDateTime t \<le> threeDaysFromNow clk
                                          \<and> endDateTime t > tomorrow \<and> \<not> completed t) (tasks user))
      in \<lparr> dailyCapacity = capacity,
           currentLoad = load,
           overloadFactor = real load / capacity,
           upcomingDeadlines = deadlines,
           wl_blockedTasks = blocked \<rparr>)"

text \<open>Lines 211-221: under overload the weight is raised to the power 1.2.\<close>

definition calculateDynamicWeight :: "Task \<Rightarrow> User \<Rightarrow> Clock \<Rightarrow> jsnum" where
  "calculateDynamicWeight task user clk =
     (if capacityDeclared user \<and> overloadFactor (calculateWorkloadMetrics user clk) > 1
      then mathPow12 (weightBeforeWorkload task user clk)
      else weightBeforeWorkload task user clk)"

section \<open>Subtask aggregator (lines 227-274)\<close>

record SubtaskContribution =
  completedWeight :: jsnum
  totalWeight :: real
  completedSubtasks :: nat

text \<open>Line 251: the weight of a subtask.\<close>

definition subtaskWeight :: "SubTask \<Rightarrow> WeightValue" where
  "subtaskWeight s = getPriorityWeight (sub_priority s) (sub_type s)"

text \<open>
  A running sum under \<^verbatim>\<open>+=\<close>: a number as long as only numbers were added; once a
  function or an object is added, \<^verbatim>\<open>+\<close> concatenates strings and the sum is a string
  from then on. Such a string holds the text of the member and converts to \<^verbatim>\<open>NaN\<close>.
\<close>

datatype RunningSum = NumberSum nat | StringSum

fun addWeight :: "RunningSum \<Rightarrow> WeightValue \<Rightarrow> RunningSum" where
  "addWeight (NumberSum n) (NumberValue w) = NumberSum (n + w)"
| "addWeight (NumberSum n) (ObjectMember k) = StringSum"
| "addWeight StringSum w = StringSum"

fun sumToNumber :: "RunningSum \<Rightarrow> jsnum" where
  "sumToNumber (NumberSum n) = Fin (real n)"
| "sumToNumber StringSum = NaN"

text \<open>
  The \<^verbatim>\<open>forEach\<close> of lines 250-257 with its two running sums
  \<^verbatim>\<open>weightedCompletion\<close> and \<^verbatim>\<open>totalSubtaskWeight\<close>.
\<close>

fun sumSubtaskWeights :: "SubTask list \<Rightarrow> RunningSum \<Rightarrow> RunningSum \<Rightarrow> RunningSum \<times> RunningSum" where
  "sumSubtaskWeights [] weightedCompletion totalSubtaskWeight =
     (weightedCompletion, totalSubtaskWeight)"
| "sumSubtaskWeights (s # ss) weightedCompletion totalSubtaskWeight =
     sumSubtaskWeights ss
       (if sub_completed s then addWeight weightedCompletion (subtaskWeight s)
        else weightedCompletion)
       (addWeight totalSubtaskWeight (subtaskWeight s))"

text \<open>
  Line 260 compares the total with 0 after converting it to a number; line 262 divides
  the two sums as numbers.
\<close>

definition calculateSubtaskContribution :: "Task \<Rightarrow> SubtaskContribution" where
  "calculateSubtaskContribution task =
     (let subtasks = orEmpty (subTasks task);
          totalSubtasks = length subtasks
      in if totalSubtasks = 0
         then \<lparr> completedWeight = Fin (if completed task then 1 else 0),
                totalWeight = 1,
                completedSubtasks = (if completed task then 1 else 0) \<rparr>
         else
           (let completedCount = length (filter sub_completed subtasks);
                ws = sumSubtaskWeights subtasks (NumberSum 0) (NumberSum 0)
            in if jsPositive (sumToNumber (snd ws))
               then \<lparr> completedWeight = jsDiv (sumToNumber (fst ws)) (sumToNumber (snd ws)),
                      totalWeight = 1,
                      completedSubtasks = completedCount \<rparr>
               else \<lparr> completedWeight = Fin (real completedCount / real totalSubtasks),
                      totalWeight = 1,
                      completedSubtasks = completedCount \<rparr>))"

section \<open>RTP calculator (lines 23-131)\<close>

text \<open>The eight running variables of \<^verbatim>\<open>calculateRTP\<close>.\<close>

record RtpSums =
  weightedCompletedSum :: jsnum
  weightedTotalSum :: jsnum
  totalEstimatedTime :: real
  totalActualTime :: real
  tasksWithAccurateEstimates :: nat
  totalTasks :: nat
  completedTasks :: nat
  blockedTasks :: nat

definition initialSums :: RtpSums where
  "initialSums =
     \<lparr> weightedCompletedSum = Fin 0, weightedTotalSum = Fin 0, totalEstimatedTime = 0,
       totalActualTime = 0, tasksWithAccurateEstimates = 0, totalTasks = 0,
       completedTasks = 0, blockedTasks = 0 \<rparr>"

text \<open>Lines 38-43: the date-range filter on the start timestamp.\<close>

definition inDateRange :: "DateRange \<Rightarrow> Task \<Rightarrow> bool" where
  "inDateRange dateRange task =
     (startDateTime task \<ge> dr_start dateRange \<and> startDateTime task \<le> dr_end dateRange)"

definition filteredTasks :: "User \<Rightarrow> DateRange option \<Rightarrow> Task list" where
  "filteredTasks user dateRange =
     (case dateRange of
        Some r \<Rightarrow> filter (inDateRange r) (tasks user)
      | None \<Rightarrow> tasks user)"

text \<open>Line 51: \<^verbatim>\<open>filterType && taskType !== filterType\<close>.\<close>

fun skippedByTier :: "TaskType option \<Rightarrow> Task \<Rightarrow> bool" where
  "skippedByTier None task = False"
| "skippedByTier (Some ft) task = (type task \<noteq> tierName ft)"

text \<open>Lines 62-68: the time estimates.\<close>

definition trackEstimates :: "Task \<Rightarrow> RtpSums \<Rightarrow> RtpSums" where
  "trackEstimates task acc =
     (if truthyReal (estimatedMinutes task)
      then (let acc1 = acc\<lparr> totalEstimatedTime :=
                               totalEstimatedTime acc + numberOf (estimatedMinutes task) \<rparr>
            in if truthyReal (actualMinutes task)
               then acc1\<lparr> totalActualTime :=
                            totalActualTime acc1 + numberOf (actualMinutes task),
                          tasksWithAccurateEstimates := tasksWithAccurateEstimates acc1 + 1 \<rparr>
               else acc1)
      else acc)"

text \<open>Lines 71-89: the completion of the task, through its subtasks when it has any.\<close>

definition trackCompletion :: "Task \<Rightarrow> jsnum \<Rightarrow> RtpSums \<Rightarrow> RtpSums" where
  "trackCompletion task dynamicWeight acc =
     (if nonEmpty (subTasks task)
      then (let c = calculateSubtaskContribution task;
                acc1 = (if completedSubtasks c = length (orEmpty (subTasks task)) \<and> completed task
                        then acc\<lparr> completedTasks := completedTasks acc + 1 \<rparr>
                        else acc)
            in acc1\<lparr> weightedCompletedSum :=
                        jsAdd (weightedCompletedSum acc1) (jsMul dynamicWeight (completedWeight c)),
                      weightedTotalSum :=
                        jsAdd (weightedTotalSum acc1) (jsMul dynamicWeight (Fin (totalWeight c))) \<rparr>)
      else (let acc1 = (if completed task
                        then acc\<lparr> completedTasks := completedTasks acc + 1 \<rparr>
                        else acc)
            in acc1\<lparr> weightedCompletedSum :=
                        jsAdd (weightedCompletedSum acc1)
                              (if completed task then dynamicWeight else Fin 0),
                      weightedTotalSum := jsAdd (weightedTotalSum acc1) dynamicWeight \<rparr>))"

text \<open>The body of the \<^verbatim>\<open>forEach\<close> of lines 46-90.\<close>

definition processTask :: "User \<Rightarrow> Clock \<Rightarrow> TaskType option \<Rightarrow> RtpSums \<Rightarrow> Task \<Rightarrow> RtpSums" where
  "processTask user clk filterType acc task =
     (let acc1 = acc\<lparr> totalTasks := totalTasks acc + 1 \<rparr>
      in if skippedByTier filterType task then acc1
         else
           (let acc2 = (if nonEmpty (blockedBy task)
                        then acc1\<lparr> blockedTasks := blockedTasks acc1 + 1 \<rparr>
                        else acc1);
                dynamicWeight = calculateDynamicWeight task user clk;
                acc3 = trackEstimates task acc2
            in trackCompletion task dynamicWeight acc3))"

definition accumulate :: "User \<Rightarrow> TaskType option \<Rightarrow> DateRange option \<Rightarrow> Clock \<Rightarrow> RtpSums" where
  "accumulate user filterType dateRange clk =
     foldl (processTask user clk filterType) initialSums (filteredTasks user dateRange)"

record RtpMetrics =
  estimationAccuracy :: "jsnum option"
  completionRate :: real
  blockedTasksPercentage :: real
  averageTaskWeight :: jsnum

record RtpResult =
  percentage :: jsnum
  score :: jsnum
  metrics :: RtpMetrics

text \<open>
  Lines 112-115, given the counter and the two totals:
  \<^verbatim>\<open>Math.min(100, 100 - Math.abs(((actual - estimated) / estimated) * 100))\<close>, or
  \<^verbatim>\<open>null\<close> (\<^term>\<open>None\<close>) when no task had both numbers.
\<close>

definition accuracyOf :: "nat \<Rightarrow> real \<Rightarrow> real \<Rightarrow> jsnum option" where
  "accuracyOf withBoth actualTime estimatedTime =
     (if withBoth > 0
      then Some (mathMin (Fin 100)
                   (jsSub (Fin 100)
                      (mathAbs (jsMul (jsDiv (Fin (actualTime - estimatedTime)) (Fin estimatedTime))
                                      (Fin 100)))))
      else None)"

text \<open>
  Line 93 tests \<^verbatim>\<open>weightedTotalSum === 0\<close>, which is false for an infinity and for
  \<^verbatim>\<open>NaN\<close>; the early return of lines 93-103 reports an estimation accuracy of 0.
\<close>

definition calculateRTP :: "User \<Rightarrow> TaskType option \<Rightarrow> DateRange option \<Rightarrow> Clock \<Rightarrow> RtpResult" where
  "calculateRTP user filterType dateRange clk =
     (let acc = accumulate user filterType dateRange clk
      in if weightedTotalSum acc = Fin 0
         then \<lparr> percentage = Fin 0, score = Fin 0,
                metrics = \<lparr> estimationAccuracy = Some (Fin 0), completionRate = 0,
                            blockedTasksPercentage = 0, averageTaskWeight = Fin 0 \<rparr> \<rparr>
         else
           \<lparr> percentage = jsMul (jsDiv (weightedCompletedSum acc) (weightedTotalSum acc)) (Fin 100),
             score = jsRound (weightedCompletedSum acc),
             metrics =
               \<lparr> estimationAccuracy =
                   accuracyOf (tasksWithAccurateEstimates acc) (totalActualTime acc)
                              (totalEstimatedTime acc),
                 completionRate =
                   (if totalTasks acc > 0
                    then (real (completedTasks acc) / real (totalTasks acc)) * 100 else 0),
                 blockedTasksPercentage =
                   (if totalTasks acc > 0
                    then (real (blockedTasks acc) / real (totalTasks acc)) * 100 else 0),
                 averageTaskWeight =
                   (if totalTasks acc > 0
                    then jsDiv (weightedTotalSum acc) (Fin (real (totalTasks acc)))
                    else Fin 0) \<rparr> \<rparr>)"

section \<open>Task classifier (lines 326-426)\<close>

text \<open>
  \<^verbatim>\<open>Partial<Task>\<close>: every field is optional. A date field is \<^term>\<open>None\<close> when it
  is missing or the empty string (both are falsy in the test of line 349), and the
  parsed timestamp otherwise.
\<close>

record PartialTask =
  pt_name :: "string option"
  pt_description :: "string option"
  pt_startDateTime :: "int option"
  pt_endDateTime :: "int option"
  pt_subTasks :: "SubTask list option"
  pt_estimatedMinutes :: "real option"
  pt_collaborators :: "string list option"
  pt_blockedBy :: "string list option"

record Scores =
  scoreLOW :: nat
  scoreMID :: nat
  scoreHIGH :: nat

record Classification =
  cl_type :: TaskType
  cl_priority :: PriorityScale

text \<open>\<^verbatim>\<open>s || ""\<close> for an optional string.\<close>

fun strOrEmpty :: "string option \<Rightarrow> string" where
  "strOrEmpty None = []"
| "strOrEmpty (Some s) = s"

text \<open>\<^verbatim>\<open>toLowerCase\<close> on the ASCII letters.\<close>

definition toLowerChar :: "char \<Rightarrow> char" where
  "toLowerChar c =
     (if 65 \<le> (of_char c :: nat) \<and> (of_char c :: nat) \<le> 90
      then char_of ((of_char c :: nat) + 32) else c)"

definition toLowerCase :: "string \<Rightarrow> string" where
  "toLowerCase s = map toLowerChar s"

text \<open>\<^verbatim>\<open>text.includes(keyword)\<close>: the keyword occurs as a contiguous substring.\<close>

fun includesStr :: "string \<Rightarrow> string \<Rightarrow> bool" where
  "includesStr [] keyword = (keyword = [])"
| "includesStr (c # cs) keyword =
     (take (length keyword) (c # cs) = keyword \<or> includesStr cs keyword)"

definition highPriorityKeywords :: "string list" where
  "highPriorityKeywords =
     [''urgent'', ''critical'', ''important'', ''deadline'', ''priority'', ''asap'',
      ''emergency'', ''crucial'']"

definition midPriorityKeywords :: "string list" where
  "midPriorityKeywords =
     [''review'', ''update'', ''prepare'', ''meeting'', ''report'', ''develop'',
      ''implement'', ''analyze'']"

definition lowPriorityKeywords :: "string list" where
  "lowPriorityKeywords =
     [''check'', ''read'', ''reminder'', ''routine'', ''daily'', ''follow-up'',
      ''monitor'', ''maintain'']"

text \<open>The number of keywords of a list that occur in the text: one point each.\<close>

definition keywordHits :: "string \<Rightarrow> string list \<Rightarrow> nat" where
  "keywordHits txt keywords = length (filter (includesStr txt) keywords)"

definition classifierText :: "PartialTask \<Rightarrow> string" where
  "classifierText task =
     toLowerCase (strOrEmpty (pt_name task) @ '' '' @ strOrEmpty (pt_description task))"

text \<open>Rule 1, lines 335-339.\<close>

definition ruleDescription :: "PartialTask \<Rightarrow> Scores \<Rightarrow> Scores" where
  "ruleDescription task s =
     (let descriptionLength = length (strOrEmpty (pt_description task))
      in if descriptionLength > 300 then s\<lparr> scoreHIGH := scoreHIGH s + 3 \<rparr>
         else if descriptionLength > 150 then s\<lparr> scoreHIGH := scoreHIGH s + 2 \<rparr>
         else if descriptionLength > 80 then s\<lparr> scoreMID := scoreMID s + 2 \<rparr>
         else s\<lparr> scoreLOW := scoreLOW s + 1 \<rparr>)"

text \<open>Rule 2, lines 342-346.\<close>

definition ruleSubtasks :: "PartialTask \<Rightarrow> Scores \<Rightarrow> Scores" where
  "ruleSubtasks task s =
     (let subtaskCount = length (orEmpty (pt_subTasks task))
      in if subtaskCount > 5 then s\<lparr> scoreHIGH := scoreHIGH s + 4 \<rparr>
         else if subtaskCount > 3 then s\<lparr> scoreHIGH := scoreHIGH s + 3 \<rparr>
         else if subtaskCount > 0 then s\<lparr> scoreMID := scoreMID s + 2 \<rparr>
         else s\<lparr> scoreLOW := scoreLOW s + 1 \<rparr>)"

text \<open>Rule 3, lines 349-358.\<close>

definition ruleDuration :: "PartialTask \<Rightarrow> Scores \<Rightarrow> Scores" where
  "ruleDuration task s =
     (case (pt_startDateTime task, pt_endDateTime task) of
        (Some startMs, Some endMs) \<Rightarrow>
          (let durationHours = real_of_int (endMs - startMs) / real_of_int msPerHour
           in if durationHours > 24 then s\<lparr> scoreHIGH := scoreHIGH s + 3 \<rparr>
              else if durationHours > 8 then s\<lparr> scoreHIGH := scoreHIGH s + 2 \<rparr>
              else if durationHours > 2 then s\<lparr> scoreMID := scoreMID s + 2 \<rparr>
              else s\<lparr> scoreLOW := scoreLOW s + 2 \<rparr>)
      | _ \<Rightarrow> s)"

text \<open>Rule 4, lines 361-385.\<close>

definition ruleKeywords :: "PartialTask \<Rightarrow> Scores \<Rightarrow> Scores" where
  "ruleKeywords task s =
     (let txt = classifierText task
      in s\<lparr> scoreHIGH := scoreHIGH s + keywordHits txt highPriorityKeywords,
            scoreMID := scoreMID s + keywordHits txt midPriorityKeywords,
            scoreLOW := scoreLOW s + keywordHits txt lowPriorityKeywords \<rparr>)"

text \<open>Rule 5, lines 388-392.\<close>

definition ruleCollaborators :: "PartialTask \<Rightarrow> Scores \<Rightarrow> Scores" where
  "ruleCollaborators task s =
     (case pt_collaborators task of
        None \<Rightarrow> s
      | Some cs \<Rightarrow>
          if length cs > 2 then s\<lparr> scoreHIGH := scoreHIGH s + 2 \<rparr>
          else if length cs > 0 then s\<lparr> scoreMID := scoreMID s + 1 \<rparr>
          else s)"

text \<open>Rule 6, lines 395-398.\<close>

definition ruleBlocked :: "PartialTask \<Rightarrow> Scores \<Rightarrow> Scores" where
  "ruleBlocked task s =
     (if nonEmpty (pt_blockedBy task) then s\<lparr> scoreMID := scoreMID s + 1 \<rparr> else s)"

text \<open>Rule 7, lines 401-407.\<close>

definition ruleEstimate :: "PartialTask \<Rightarrow> Scores \<Rightarrow> Scores" where
  "ruleEstimate task s =
     (if truthyReal (pt_estimatedMinutes task)
      then (if numberOf (pt_estimatedMinutes task) > 240 then s\<lparr> scoreHIGH := scoreHIGH s + 2 \<rparr>
            else if numberOf (pt_estimatedMinutes task) > 60 then s\<lparr> scoreMID := scoreMID s + 2 \<rparr>
            else s\<lparr> scoreLOW := scoreLOW s + 1 \<rparr>)
      else s)"

text \<open>The scores after the seven rules, applied in the order of the source.\<close>

definition classifyScores :: "PartialTask \<Rightarrow> Scores" where
  "classifyScores task =
     ruleEstimate task (ruleBlocked task (ruleCollaborators task (ruleKeywords task
       (ruleDuration task (ruleSubtasks task (ruleDescription task
          \<lparr> scoreLOW = 0, scoreMID = 0, scoreHIGH = 0 \<rparr>))))))"

text \<open>Lines 410-413.\<close>

definition scoresTier :: "Scores \<Rightarrow> TaskType" where
  "scoresTier s =
     (if scoreHIGH s > scoreMID s \<and> scoreHIGH s > scoreLOW s then HIGH
      else if scoreMID s > scoreLOW s then MID
      else LOW)"

text \<open>Lines 416-423; \<^verbatim>\<open>totalScore || 1\<close> replaces a zero total by 1.\<close>

definition scoresPriority :: "Scores \<Rightarrow> PriorityScale" where
  "scoresPriority s =
     (let totalScore = scoreLOW s + scoreMID s + scoreHIGH s;
          highContribution = scoreHIGH s * 3;
          midContribution = scoreMID s * 2;
          lowContribution = scoreLOW s;
          weightedScore = real (highContribution + midContribution + lowContribution)
                            / real (if totalScore \<noteq> 0 then totalScore else 1)
      in nat (max 1 (min 10 (mathRound (weightedScore * 3)))))"

definition classifyTask :: "PartialTask \<Rightarrow> Classification" where
  "classifyTask task =
     \<lparr> cl_type = scoresTier (classifyScores task),
       cl_priority = scoresPriority (classifyScores task) \<rparr>"

section \<open>Notions used in the statements\<close>

text \<open>
  The tasks that the loop of \<open>calculateRTP\<close> processes: those that pass the date-range
  filter and are not skipped by the tier filter.
\<close>

definition processedTasks :: "User \<Rightarrow> TaskType option \<Rightarrow> DateRange option \<Rightarrow> Task list" where
  "processedTasks user filterType dateRange =
     filter (\<lambda>t. \<not> skippedByTier filterType t) (filteredTasks user dateRange)"




text \<open>The condition under which lines 75-77 and 83-85 count a task as completed.\<close>

definition countsAsCompleted :: "Task \<Rightarrow> bool" where
  "countsAsCompleted t =
     ((\<not> nonEmpty (subTasks t) \<and> completed t) \<or>
      (nonEmpty (subTasks t) \<and> list_all sub_completed (orEmpty (subTasks t)) \<and> completed t))"

text \<open>
  A task has started, with a well-ordered range: its start is not after the evaluation
  time and not after its deadline.
\<close>

definition started :: "Task \<Rightarrow> Clock \<Rightarrow> bool" where
  "started task clk = (startDateTime task \<le> now clk \<and> startDateTime task \<le> endDateTime task)"

text \<open>The three preference ratios are nonnegative and their sum is positive.\<close>

definition ratiosValid :: "WeightPreferences \<Rightarrow> bool" where
  "ratiosValid w =
     (0 \<le> pref_deadline w \<and> 0 \<le> pref_priority w \<and> 0 \<le> pref_complexity w
      \<and> 0 < pref_priority w + pref_deadline w + pref_complexity w)"

text \<open>The base weight of a task is a number: \<open>getPriorityWeight\<close> returns no inherited member.\<close>

fun isNumber :: "WeightValue \<Rightarrow> bool" where
  "isNumber (NumberValue n) = True"
| "isNumber (ObjectMember k) = False"

definition baseIsNumber :: "Task \<Rightarrow> bool" where
  "baseIsNumber t = isNumber (getPriorityWeight (priority t) (type t))"

text \<open>
  The weight of a subtask in the words of the specification: its explicit priority, and
  otherwise the default of its tier, 2 for LOW, 5 for MID, 8 for HIGH and 5 for any
  other label.
\<close>

definition statedWeight :: "SubTask \<Rightarrow> nat" where
  "statedWeight s =
     (case sub_priority s of
        Some p \<Rightarrow> p
      | None \<Rightarrow> (if sub_type s = ''LOW'' then 2
                 else if sub_type s = ''MID'' then 5
                 else if sub_type s = ''HIGH'' then 8
                 else 5))"

text \<open>
  A subtask is ordinary when its explicit priority, if it has one, is on the scale from
  1 to 10, and its label, if it has no priority, is not a key of \<^verbatim>\<open>Object.prototype\<close>.
\<close>

definition ordinarySubtask :: "SubTask \<Rightarrow> bool" where
  "ordinarySubtask s =
     (case sub_priority s of
        Some p \<Rightarrow> validPriority p
      | None \<Rightarrow> sub_type s \<notin> set objectPrototypeKeys)"

section \<open>Concrete inputs\<close>

text \<open>The clock at the epoch in UTC: every timestamp below is relative to that instant.\<close>

definition clockEpoch :: Clock where
  "clockEpoch = \<lparr> now = 0, tzOffset = 0 \<rparr>"

text \<open>A task with the mandatory fields only.\<close>

definition plainTask :: "int \<Rightarrow> int \<Rightarrow> bool \<Rightarrow> string \<Rightarrow> Task" where
  "plainTask startMs endMs isDone ty =
     \<lparr> startDateTime = startMs, endDateTime = endMs, completed = isDone, type = ty,
       priority = None, subTasks = None, estimatedMinutes = None, actualMinutes = None,
       blockedBy = None, collaborators = None \<rparr>"

text \<open>A one-day task of tier LOW that starts in ten days, not completed.\<close>

definition futureTask :: Task where
  "futureTask = plainTask (10 * msPerDay) (11 * msPerDay) False ''LOW''"

text \<open>A one-day task of tier MID that was due yesterday, completed.\<close>

definition finishedTask :: Task where
  "finishedTask = plainTask (- 2 * msPerDay) (- msPerDay) True ''MID''"

text \<open>A user without preferences who has finished one task and planned another.\<close>

definition plannerUser :: User where
  "plannerUser = \<lparr> tasks = [finishedTask, futureTask], preferences = None \<rparr>"

text \<open>
  A task with two subtasks: one labelled LOW with the explicit priority 9, completed, and
  one of tier HIGH without a priority, still open.
\<close>

definition reviewTask :: Task where
  "reviewTask =
     (plainTask (- msPerDay) msPerDay False ''MID'')
       \<lparr> subTasks := Some [\<lparr> sub_completed = True, sub_type = ''LOW'', sub_priority = Some 9 \<rparr>,
                            \<lparr> sub_completed = False, sub_type = ''HIGH'', sub_priority = None \<rparr>] \<rparr>"

text \<open>
  A task with two subtasks without priorities: one labelled \<^verbatim>\<open>constructor\<close>, completed,
  and one of tier LOW, still open.
\<close>

definition inheritedLabelTask :: Task where
  "inheritedLabelTask =
     (plainTask (- msPerDay) msPerDay False ''MID'')
       \<lparr> subTasks := Some [\<lparr> sub_completed = True, sub_type = ''constructor'', sub_priority = None \<rparr>,
                            \<lparr> sub_completed = False, sub_type = ''LOW'', sub_priority = None \<rparr>] \<rparr>"

text \<open>A one-day task of tier MID that was due yesterday and is still open.\<close>

definition lateTask :: Task where
  "lateTask = plainTask (- 2 * msPerDay) (- msPerDay) False ''MID''"

text \<open>Six open tasks that are overdue, and no preferences: the default capacity is 5.\<close>

definition crowdedUser :: User where
  "crowdedUser =
     \<lparr> tasks = [lateTask, lateTask, lateTask, lateTask, lateTask, lateTask],
       preferences = None \<rparr>"

text \<open>Two open tasks that are overdue, and a declared capacity of one task per day.\<close>

definition busyUser :: User where
  "busyUser =
     \<lparr> tasks = [lateTask, lateTask],
       preferences = Some \<lparr> productiveHours = None, workloadCapacity = Some 1,
                             weightPreferences = None \<rparr> \<rparr>"

text \<open>An open task of tier LOW that waits for another task.\<close>

definition blockedLowTask :: Task where
  "blockedLowTask =
     (plainTask (- msPerDay) msPerDay False ''LOW'')\<lparr> blockedBy := Some [''task-1''] \<rparr>"

definition blockedUser :: User where
  "blockedUser = \<lparr> tasks = [blockedLowTask], preferences = None \<rparr>"

text \<open>
  The range of one day that the dashboard passes for today, from midnight to the next
  midnight, and three tasks: one starting at the first instant of the range, one at its
  last instant and one a millisecond later.
\<close>

definition todayRange :: DateRange where
  "todayRange = \<lparr> dr_start = 0, dr_end = msPerDay \<rparr>"

definition dawnTask :: Task where
  "dawnTask = plainTask 0 msPerDay False ''MID''"

definition midnightTask :: Task where
  "midnightTask = plainTask msPerDay (2 * msPerDay) False ''MID''"

definition nextDayTask :: Task where
  "nextDayTask = plainTask (msPerDay + 1) (2 * msPerDay) False ''MID''"

definition calendarUser :: User where
  "calendarUser = \<lparr> tasks = [dawnTask, midnightTask, nextDayTask], preferences = None \<rparr>"

text \<open>
  A completed task whose two subtasks are completed, and the same task with its own
  completion flag cleared.
\<close>

definition closedTask :: Task where
  "closedTask =
     (plainTask (- msPerDay) msPerDay True ''MID'')
       \<lparr> subTasks := Some [\<lparr> sub_completed = True, sub_type = ''HIGH'', sub_priority = None \<rparr>,
                            \<lparr> sub_completed = True, sub_type = ''LOW'', sub_priority = Some 2 \<rparr>] \<rparr>"

definition halfClosedTask :: Task where
  "halfClosedTask = closedTask\<lparr> completed := False \<rparr>"



text \<open>
  A task with a description of 400 characters, six subtasks and a duration of 30 hours;
  neither its name nor its description contains a keyword of the classifier.
\<close>

definition planningTask :: PartialTask where
  "planningTask =
     \<lparr> pt_name = Some ''Big job'',
       pt_description = Some (replicate 400 CHR ''x''),
       pt_startDateTime = Some 0,
       pt_endDateTime = Some (30 * msPerHour),
       pt_subTasks = Some (replicate 6 \<lparr> sub_completed = False, sub_type = [], sub_priority = None \<rparr>),
       pt_estimatedMinutes = None,
       pt_collaborators = Some [],
       pt_blockedBy = None \<rparr>"

text \<open>The three days up to the evaluation time.\<close>

definition pastRange :: DateRange where
  "pastRange = \<lparr> dr_start = - 3 * msPerDay, dr_end = 0 \<rparr>"

section \<open>Evaluation of the concrete inputs\<close>

lemmas clock_defs = clockEpoch_def timeRemaining_def totalTaskDuration_def msPerDay_def msPerHour_def

lemma preferenceWeighted_number:
  assumes "getPriorityWeight (priority task) (type task) = NumberValue b"
  shows "preferenceWeighted task user clk =
           jsDiv (Fin (real b * pref_priority (userWeightPreferences user)
                        + real b * urgencyFactor task clk * pref_deadline (userWeightPreferences user)
                        + real b * complexityFactor task * pref_complexity (userWeightPreferences user)))
                 (Fin (pref_priority (userWeightPreferences user)
                        + pref_deadline (userWeightPreferences user)
                        + pref_complexity (userWeightPreferences user)))"
  using assms by (simp add: preferenceWeighted_def Let_def)

lemma preferenceWeighted_default:
  assumes "userWeightPreferences user = defaultWeightPreferences"
    and "getPriorityWeight (priority task) (type task) = NumberValue b"
  shows "preferenceWeighted task user clk =
           Fin (real b * (4 / 10 + urgencyFactor task clk * (4 / 10) + complexityFactor task * (2 / 10)))"
  using assms(1)
  by (simp add: preferenceWeighted_number[OF assms(2)] defaultWeightPreferences_def distrib_left)

lemma weight_no_preferences:
  assumes "preferences user = None"
    and "getPriorityWeight (priority task) (type task) = NumberValue b"
  shows "calculateDynamicWeight task user clk =
           Fin (real b * (4 / 10 + urgencyFactor task clk * (4 / 10) + complexityFactor task * (2 / 10)))"
proof -
  have "userWeightPreferences user = defaultWeightPreferences"
    using assms(1) by (simp add: userWeightPreferences_def)
  then show ?thesis
    using assms(1)
    by (simp add: calculateDynamicWeight_def capacityDeclared_def weightBeforeWorkload_def
        isProductiveHour_def preferenceWeighted_default[OF _ assms(2)])
qed

lemma urgency_futureTask: "urgencyFactor (futureTask\<lparr>priority := p\<rparr>) clockEpoch = - 4"
  by (simp add: urgencyFactor_def futureTask_def plainTask_def durationFactor_def clock_defs)

lemma urgency_finishedTask: "urgencyFactor finishedTask clockEpoch = 2"
  by (simp add: urgencyFactor_def overdueMultiplier_def finishedTask_def plainTask_def clock_defs)

lemma weight_futureTask:
  assumes "getPriorityWeight p ''LOW'' = NumberValue b"
  shows "calculateDynamicWeight (futureTask\<lparr>priority := p\<rparr>) plannerUser clockEpoch = Fin (- real b)"
proof -
  have n: "preferences plannerUser = None"
    by (simp add: plannerUser_def)
  have g: "getPriorityWeight (priority (futureTask\<lparr>priority := p\<rparr>)) (type (futureTask\<lparr>priority := p\<rparr>))
             = NumberValue b"
    using assms by (simp add: futureTask_def plainTask_def)
  have c: "complexityFactor (futureTask\<lparr>priority := p\<rparr>) = 1"
    by (simp add: futureTask_def plainTask_def complexityFactor_def)
  show ?thesis
    by (simp add: weight_no_preferences[OF n g] urgency_futureTask c)
qed

lemma weight_futureTask_plain: "calculateDynamicWeight futureTask plannerUser clockEpoch = Fin (- 2)"
proof -
  have "getPriorityWeight None ''LOW'' = NumberValue 2"
    by (simp add: baseTaskWeight_def)
  then have "calculateDynamicWeight (futureTask\<lparr>priority := None\<rparr>) plannerUser clockEpoch = Fin (- real (2::nat))"
    by (rule weight_futureTask)
  then show ?thesis
    by (simp add: futureTask_def plainTask_def)
qed

lemma weight_finishedTask: "calculateDynamicWeight finishedTask plannerUser clockEpoch = Fin 7"
proof -
  have n: "preferences plannerUser = None"
    by (simp add: plannerUser_def)
  have g: "getPriorityWeight (priority finishedTask) (type finishedTask) = NumberValue 5"
    by (simp add: finishedTask_def plainTask_def baseTaskWeight_def)
  have c: "complexityFactor finishedTask = 1"
    by (simp add: finishedTask_def plainTask_def complexityFactor_def)
  show ?thesis
    by (simp add: weight_no_preferences[OF n g] urgency_finishedTask c)
qed

lemma sums_plannerUser:
  "accumulate plannerUser None None clockEpoch =
     initialSums\<lparr> weightedCompletedSum := Fin 7, weightedTotalSum := Fin 5,
                   totalTasks := 2, completedTasks := 1 \<rparr>"
proof -
  have s1: "processTask plannerUser clockEpoch None initialSums finishedTask
      = initialSums\<lparr> weightedCompletedSum := Fin 7, weightedTotalSum := Fin 7,
                      totalTasks := 1, completedTasks := 1 \<rparr>"
    by (simp add: processTask_def weight_finishedTask trackEstimates_def trackCompletion_def Let_def)
       (simp add: finishedTask_def plainTask_def initialSums_def)
  have s2: "processTask plannerUser clockEpoch None
       (initialSums\<lparr> weightedCompletedSum := Fin 7, weightedTotalSum := Fin 7,
                      totalTasks := 1, completedTasks := 1 \<rparr>) futureTask
      = initialSums\<lparr> weightedCompletedSum := Fin 7, weightedTotalSum := Fin 5,
                      totalTasks := 2, completedTasks := 1 \<rparr>"
    by (simp add: processTask_def weight_futureTask_plain trackEstimates_def trackCompletion_def Let_def)
       (simp add: futureTask_def plainTask_def initialSums_def)
  have ft: "filteredTasks plannerUser None = [finishedTask, futureTask]"
    by (simp add: filteredTasks_def plannerUser_def)
  show ?thesis
    by (simp only: accumulate_def ft foldl_Cons foldl_Nil s1 s2)
qed

lemma urgency_lateTask: "urgencyFactor lateTask clockEpoch = 2"
  by (simp add: urgencyFactor_def overdueMultiplier_def lateTask_def plainTask_def clock_defs)

lemma lateTask_base:
  "getPriorityWeight (priority (lateTask\<lparr> estimatedMinutes := e, actualMinutes := a \<rparr>))
                     (type (lateTask\<lparr> estimatedMinutes := e, actualMinutes := a \<rparr>)) = NumberValue 5"
  "getPriorityWeight (priority lateTask) (type lateTask) = NumberValue 5"
  by (simp_all add: lateTask_def plainTask_def baseTaskWeight_def)

lemma before_workload_lateTask:
  assumes "userWeightPreferences user = defaultWeightPreferences"
    and "\<not> isProductiveHour user clockEpoch"
  shows "weightBeforeWorkload lateTask user clockEpoch = Fin 7"
proof -
  have c: "complexityFactor lateTask = 1"
    by (simp add: lateTask_def plainTask_def complexityFactor_def)
  have "preferenceWeighted lateTask user clockEpoch = Fin 7"
    by (simp add: preferenceWeighted_default[OF assms(1) lateTask_base(2)] urgency_lateTask c)
  then show ?thesis
    using assms(2) by (simp add: weightBeforeWorkload_def)
qed

lemma before_workload_crowded: "weightBeforeWorkload lateTask crowdedUser clockEpoch = Fin 7"
  by (rule before_workload_lateTask)
     (simp_all add: userWeightPreferences_def isProductiveHour_def crowdedUser_def)

lemma before_workload_busy: "weightBeforeWorkload lateTask busyUser clockEpoch = Fin 7"
  by (rule before_workload_lateTask)
     (simp_all add: userWeightPreferences_def isProductiveHour_def busyUser_def)

lemma overload_crowded: "overloadFactor (calculateWorkloadMetrics crowdedUser clockEpoch) = 6 / 5"
  by (simp add: calculateWorkloadMetrics_def crowdedUser_def endOfTomorrow_def lateTask_def
      plainTask_def clock_defs)

lemma overload_busy: "overloadFactor (calculateWorkloadMetrics busyUser clockEpoch) = 2"
  by (simp add: calculateWorkloadMetrics_def busyUser_def endOfTomorrow_def lateTask_def
      plainTask_def clock_defs)

lemma seven_powr: "(7::real) powr (12 / 10) \<noteq> 7"
proof -
  have "(7::real) powr 1 < 7 powr (12 / 10)"
    by (rule powr_less_mono) simp_all
  then show ?thesis by simp
qed


lemma no_declared_capacity_no_adjustment:
  assumes "\<not> capacityDeclared user"
  shows "calculateDynamicWeight task user clk = weightBeforeWorkload task user clk"
  using assms by (simp add: calculateDynamicWeight_def)

section \<open>Subtask aggregator: the weighted ratio\<close>

text \<open>
  For subtasks that are ordinary (an explicit priority on the scale, or a label that is
  no key of \<^verbatim>\<open>Object.prototype\<close>) the two running sums stay numbers, the total is
  positive and the completed weight is the ratio of the stated weights. For every task
  the completed weight is a number between 0 and 1.
\<close>

lemma statedWeight_pos: "ordinarySubtask s \<Longrightarrow> 0 < statedWeight s"
  by (cases "sub_priority s") (simp_all add: ordinarySubtask_def statedWeight_def validPriority_def)

lemma ordinary_subtaskWeight:
  assumes "ordinarySubtask s"
  shows "subtaskWeight s = NumberValue (statedWeight s)"
proof (cases "sub_priority s")
  case None
  with assms have "sub_type s \<notin> set objectPrototypeKeys"
    by (simp add: ordinarySubtask_def)
  with None show ?thesis
    by (simp add: subtaskWeight_def statedWeight_def baseTaskWeight_def)
next
  case (Some p)
  with assms have "p \<noteq> 0"
    by (simp add: ordinarySubtask_def validPriority_def)
  with Some show ?thesis
    by (simp add: subtaskWeight_def statedWeight_def)
qed

lemma sumSubtaskWeights_ordinary:
  assumes "\<forall>s \<in> set ss. ordinarySubtask s"
  shows "sumSubtaskWeights ss (NumberSum wc) (NumberSum tw) =
           (NumberSum (wc + sum_list (map statedWeight (filter sub_completed ss))),
            NumberSum (tw + sum_list (map statedWeight ss)))"
  using assms
  by (induction ss arbitrary: wc tw) (simp_all add: ordinary_subtaskWeight)

lemma sum_completed_le_total:
  "sum_list (map statedWeight (filter sub_completed ss)) \<le> sum_list (map statedWeight ss)"
  by (induction ss) simp_all

lemma total_weight_ge_length:
  assumes "\<forall>s \<in> set ss. ordinarySubtask s"
  shows "length ss \<le> sum_list (map statedWeight ss)"
  using assms
proof (induction ss)
  case Nil
  then show ?case by simp
next
  case (Cons s ss)
  then have "0 < statedWeight s"
    by (simp add: statedWeight_pos)
  with Cons show ?case by simp
qed

lemma nonEmpty_orEmpty: "nonEmpty xs \<longleftrightarrow> orEmpty xs \<noteq> []"
  by (cases xs) simp_all

lemma string_total_stays: "snd (sumSubtaskWeights ss c StringSum) = StringSum"
  by (induction ss arbitrary: c) simp_all

lemma numeric_total_bounds_completion:
  assumes "sumSubtaskWeights ss (NumberSum wc) (NumberSum tw) = (c, NumberSum n)"
    and "wc \<le> tw"
  shows "\<exists>m. c = NumberSum m \<and> m \<le> n"
  using assms
proof (induction ss arbitrary: wc tw)
  case Nil
  then show ?case by auto
next
  case (Cons s ss)
  show ?case
  proof (cases "subtaskWeight s")
    case (NumberValue w)
    show ?thesis
    proof (cases "sub_completed s")
      case True
      with Cons.prems NumberValue
      have "sumSubtaskWeights ss (NumberSum (wc + w)) (NumberSum (tw + w)) = (c, NumberSum n)"
        by simp
      moreover have "wc + w \<le> tw + w"
        using Cons.prems(2) by simp
      ultimately show ?thesis
        by (rule Cons.IH)
    next
      case False
      with Cons.prems NumberValue
      have "sumSubtaskWeights ss (NumberSum wc) (NumberSum (tw + w)) = (c, NumberSum n)"
        by simp
      moreover have "wc \<le> tw + w"
        using Cons.prems(2) by simp
      ultimately show ?thesis
        by (rule Cons.IH)
    qed
  next
    case (ObjectMember k)
    then have "snd (sumSubtaskWeights (s # ss) (NumberSum wc) (NumberSum tw)) = StringSum"
      by (simp add: string_total_stays)
    with Cons.prems(1) show ?thesis
      by simp
  qed
qed

lemma contribution_counts:
  assumes "nonEmpty (subTasks task)"
  shows "completedSubtasks (calculateSubtaskContribution task)
           = length (filter sub_completed (orEmpty (subTasks task)))"
    and "totalWeight (calculateSubtaskContribution task) = 1"
  using assms
  by (simp_all add: calculateSubtaskContribution_def Let_def nonEmpty_orEmpty)

lemma totalWeight_one: "totalWeight (calculateSubtaskContribution task) = 1"
  by (simp add: calculateSubtaskContribution_def Let_def)

lemma completedWeight_bounds:
  "\<exists>f. completedWeight (calculateSubtaskContribution task) = Fin f \<and> 0 \<le> f \<and> f \<le> 1"
proof (cases "orEmpty (subTasks task) = []")
  case True
  then show ?thesis
    by (simp add: calculateSubtaskContribution_def)
next
  case False
  let ?ss = "orEmpty (subTasks task)"
  let ?ws = "sumSubtaskWeights ?ss (NumberSum 0) (NumberSum 0)"
  show ?thesis
  proof (cases "jsPositive (sumToNumber (snd ?ws))")
    case True
    then obtain n where n: "snd ?ws = NumberSum n" and pos: "0 < n"
      by (cases "snd ?ws") simp_all
    then have "?ws = (fst ?ws, NumberSum n)"
      by (simp add: prod_eq_iff)
    then obtain m where m: "fst ?ws = NumberSum m" and le: "m \<le> n"
      using numeric_total_bounds_completion[of ?ss 0 0 "fst ?ws" n] by auto
    have "completedWeight (calculateSubtaskContribution task) = Fin (real m / real n)"
      using False True n m pos by (simp add: calculateSubtaskContribution_def Let_def)
    moreover have "real m / real n \<le> 1"
      using le pos by simp
    ultimately show ?thesis
      by simp
  next
    case no: False
    have "length (filter sub_completed ?ss) \<le> length ?ss"
      by simp
    then have "real (length (filter sub_completed ?ss)) / real (length ?ss) \<le> 1"
      using False by (simp add: divide_le_eq)
    then show ?thesis
      using False no by (simp add: calculateSubtaskContribution_def Let_def)
  qed
qed

lemma weighted_ratio_for_ordinary_subtasks:
  assumes "nonEmpty (subTasks task)"
    and "\<forall>s \<in> set (orEmpty (subTasks task)). ordinarySubtask s"
  shows "(\<forall>s \<in> set (orEmpty (subTasks task)).
            subtaskWeight s = NumberValue (statedWeight s) \<and> 1 \<le> statedWeight s)
       \<and> snd (sumSubtaskWeights (orEmpty (subTasks task)) (NumberSum 0) (NumberSum 0))
            = NumberSum (sum_list (map statedWeight (orEmpty (subTasks task))))
       \<and> 0 < sum_list (map statedWeight (orEmpty (subTasks task)))
       \<and> completedWeight (calculateSubtaskContribution task) =
            Fin (real (sum_list (map statedWeight (filter sub_completed (orEmpty (subTasks task)))))
                   / real (sum_list (map statedWeight (orEmpty (subTasks task)))))
       \<and> 0 \<le> real (sum_list (map statedWeight (filter sub_completed (orEmpty (subTasks task)))))
                   / real (sum_list (map statedWeight (orEmpty (subTasks task))))
       \<and> real (sum_list (map statedWeight (filter sub_completed (orEmpty (subTasks task)))))
            / real (sum_list (map statedWeight (orEmpty (subTasks task)))) \<le> 1"
proof -
  let ?ss = "orEmpty (subTasks task)"
  from assms(1) have ne: "?ss \<noteq> []"
    by (simp add: nonEmpty_orEmpty)
  then have "0 < length ?ss" by simp
  with total_weight_ge_length[OF assms(2)]
  have pos: "0 < sum_list (map statedWeight ?ss)" by linarith
  have each: "\<forall>s \<in> set ?ss. subtaskWeight s = NumberValue (statedWeight s) \<and> 1 \<le> statedWeight s"
    using assms(2) statedWeight_pos by (auto simp add: ordinary_subtaskWeight Suc_le_eq)
  have cw: "completedWeight (calculateSubtaskContribution task) =
            Fin (real (sum_list (map statedWeight (filter sub_completed ?ss)))
                   / real (sum_list (map statedWeight ?ss)))"
  proof -
    from ne obtain s where "s \<in> set ?ss"
      by (cases ?ss) auto
    then have ex: "\<exists>s \<in> set ?ss. 0 < statedWeight s"
      using assms(2) statedWeight_pos by auto
    show ?thesis
      using ne ex
      by (auto simp add: calculateSubtaskContribution_def Let_def
          sumSubtaskWeights_ordinary[OF assms(2)])
  qed
  have le: "real (sum_list (map statedWeight (filter sub_completed ?ss)))
            / real (sum_list (map statedWeight ?ss)) \<le> 1"
    using pos sum_completed_le_total[of ?ss] by simp
  have tot: "snd (sumSubtaskWeights ?ss (NumberSum 0) (NumberSum 0))
               = NumberSum (sum_list (map statedWeight ?ss))"
    by (simp add: sumSubtaskWeights_ordinary[OF assms(2)])
  have ge0: "0 \<le> real (sum_list (map statedWeight (filter sub_completed ?ss)))
            / real (sum_list (map statedWeight ?ss))"
    by simp
  show ?thesis
    by (intro conjI each tot pos cw ge0 le)
qed

lemma subtask_contribution_of_reviewTask:
  "nonEmpty (subTasks reviewTask)
   \<and> (\<forall>s \<in> set (orEmpty (subTasks reviewTask)). ordinarySubtask s)
   \<and> completedWeight (calculateSubtaskContribution reviewTask) = Fin (9 / 17)"
proof -
  have n: "nonEmpty (subTasks reviewTask)"
    by (simp add: reviewTask_def plainTask_def)
  have o: "\<forall>s \<in> set (orEmpty (subTasks reviewTask)). ordinarySubtask s"
    by (simp add: reviewTask_def plainTask_def ordinarySubtask_def validPriority_def
        objectPrototypeKeys_def)
  show ?thesis
    using weighted_ratio_for_ordinary_subtasks[OF n o] n o
    by (simp add: reviewTask_def plainTask_def statedWeight_def)
qed

section \<open>The loop of the RTP calculator\<close>

lemma trackCompletion_frame:
  "totalTasks (trackCompletion t w a) = totalTasks a"
  "blockedTasks (trackCompletion t w a) = blockedTasks a"
  "totalEstimatedTime (trackCompletion t w a) = totalEstimatedTime a"
  "totalActualTime (trackCompletion t w a) = totalActualTime a"
  "tasksWithAccurateEstimates (trackCompletion t w a) = tasksWithAccurateEstimates a"
  by (simp_all add: trackCompletion_def Let_def)

lemma trackEstimates_frame:
  "totalTasks (trackEstimates t a) = totalTasks a"
  "blockedTasks (trackEstimates t a) = blockedTasks a"
  "completedTasks (trackEstimates t a) = completedTasks a"
  "weightedCompletedSum (trackEstimates t a) = weightedCompletedSum a"
  "weightedTotalSum (trackEstimates t a) = weightedTotalSum a"
  by (simp_all add: trackEstimates_def Let_def)


lemma filter_all_length: "(length (filter P xs) = length xs) = (\<forall>x \<in> set xs. P x)"
proof (induction xs)
  case Nil
  then show ?case by simp
next
  case (Cons x xs)
  show ?case
  proof (cases "P x")
    case True
    with Cons show ?thesis by simp
  next
    case False
    have "length (filter P xs) \<le> length xs" by simp
    then have "length (filter P xs) \<noteq> Suc (length xs)" by linarith
    with False show ?thesis by simp
  qed
qed

lemma trackCompletion_completed:
  "completedTasks (trackCompletion t w a) =
     completedTasks a + (if countsAsCompleted t then 1 else 0)"
proof (cases "nonEmpty (subTasks t)")
  case True
  then show ?thesis
    by (simp add: trackCompletion_def Let_def contribution_counts countsAsCompleted_def
        filter_all_length list_all_iff)
next
  case False
  then show ?thesis
    by (simp add: trackCompletion_def Let_def countsAsCompleted_def)
qed

lemma processTask_skipped:
  "skippedByTier ft t \<Longrightarrow> processTask u c ft a t = a\<lparr> totalTasks := totalTasks a + 1 \<rparr>"
  by (simp add: processTask_def)

lemma processTask_counts:
  "totalTasks (processTask u c ft a t) = totalTasks a + 1"
  "blockedTasks (processTask u c ft a t) =
     blockedTasks a + (if \<not> skippedByTier ft t \<and> nonEmpty (blockedBy t) then 1 else 0)"
  "completedTasks (processTask u c ft a t) =
     completedTasks a + (if \<not> skippedByTier ft t \<and> countsAsCompleted t then 1 else 0)"
  by (simp_all add: processTask_def Let_def trackCompletion_frame trackEstimates_frame
      trackCompletion_completed)


lemma foldl_counts:
  "totalTasks (foldl (processTask u c ft) a ts) = totalTasks a + length ts"
  "blockedTasks (foldl (processTask u c ft) a ts) =
     blockedTasks a
       + length (filter (\<lambda>t. nonEmpty (blockedBy t)) (filter (\<lambda>t. \<not> skippedByTier ft t) ts))"
  "completedTasks (foldl (processTask u c ft) a ts) =
     completedTasks a + length (filter countsAsCompleted (filter (\<lambda>t. \<not> skippedByTier ft t) ts))"
  by (induction ts arbitrary: a) (simp_all add: processTask_counts)



lemma accumulate_counts:
  "totalTasks (accumulate u ft dr c) = length (filteredTasks u dr)"
  "blockedTasks (accumulate u ft dr c) =
     length (filter (\<lambda>t. nonEmpty (blockedBy t)) (processedTasks u ft dr))"
  "completedTasks (accumulate u ft dr c) = length (filter countsAsCompleted (processedTasks u ft dr))"
  by (simp_all add: accumulate_def foldl_counts processedTasks_def initialSums_def)


section \<open>Estimation accuracy\<close>








lemma accumulate_single:
  assumes "filteredTasks u dr = [t]" and "\<not> skippedByTier ft t" and "\<not> nonEmpty (subTasks t)"
    and "calculateDynamicWeight t u c = Fin w"
  shows "weightedTotalSum (accumulate u ft dr c) = Fin w"
  using assms
  by (simp add: accumulate_def processTask_def trackCompletion_def trackEstimates_frame Let_def
      initialSums_def)










section \<open>Weights of tasks that have started\<close>

text \<open>
  For a task that has started, with its start not after its deadline, the urgency
  factor is at least 1, so with valid preference ratios and a number for base weight the
  dynamic weight is a number that is at least 1. Over such tasks the weighted sums are
  numbers that are ordered, the percentage lies between 0 and 100 and the weight grows
  with the explicit priority.
\<close>

lemma durationFactor_ge_1: "1 \<le> durationFactor task"
  by (simp add: durationFactor_def)

lemma urgencyFactor_ge_1:
  assumes "started task clk"
  shows "1 \<le> urgencyFactor task clk"
proof -
  from assms have s: "startDateTime task \<le> now clk" and v: "startDateTime task \<le> endDateTime task"
    by (simp_all add: started_def)
  show ?thesis
  proof (cases "timeRemaining task clk < 0")
    case True
    have "0 < real_of_int (if totalTaskDuration task \<noteq> 0 then totalTaskDuration task else msPerDay)"
      using v by (simp add: totalTaskDuration_def msPerDay_def)
    then have "0 \<le> \<bar>real_of_int (timeRemaining task clk)\<bar> /
        real_of_int (if totalTaskDuration task \<noteq> 0 then totalTaskDuration task else msPerDay)"
      by (intro divide_nonneg_pos) simp_all
    then have "1 \<le> overdueMultiplier task clk"
      unfolding overdueMultiplier_def by simp
    with True show ?thesis
      by (simp add: urgencyFactor_def)
  next
    case False
    show ?thesis
    proof (cases "timeRemaining task clk > 0 \<and> totalTaskDuration task > 0")
      case True
      then have pos: "0 < real_of_int (totalTaskDuration task)"
        by simp
      have "timeRemaining task clk \<le> totalTaskDuration task"
        using s by (simp add: timeRemaining_def totalTaskDuration_def)
      then have "real_of_int (timeRemaining task clk) \<le> real_of_int (totalTaskDuration task)"
        by simp
      with pos have "real_of_int (timeRemaining task clk) / real_of_int (totalTaskDuration task) \<le> 1"
        by (simp add: divide_le_eq)
      then have "0 \<le> (1 - real_of_int (timeRemaining task clk) / real_of_int (totalTaskDuration task))
                      * (5 / 10) * durationFactor task"
        using durationFactor_ge_1[of task] by (intro mult_nonneg_nonneg) simp_all
      with True False show ?thesis
        by (simp add: urgencyFactor_def)
    next
      case no: False
      have "urgencyFactor task clk = 1"
        unfolding urgencyFactor_def Let_def using no False by (simp only: if_not_P if_False)
      then show ?thesis by simp
    qed
  qed
qed

lemma complexityFactor_ge_1: "1 \<le> complexityFactor task"
  by (simp add: complexityFactor_def Let_def)

lemma getPriorityWeight_pos:
  assumes "getPriorityWeight p ty = NumberValue b"
  shows "1 \<le> b"
proof -
  have base: "baseTaskWeight ty = NumberValue b \<Longrightarrow> 1 \<le> b"
    by (simp add: baseTaskWeight_def split: if_splits)
  show ?thesis
  proof (cases p)
    case None
    with assms base show ?thesis by simp
  next
    case (Some n)
    with assms base show ?thesis
      by (cases "n = 0") simp_all
  qed
qed

lemma preferenceWeighted_started:
  assumes "ratiosValid (userWeightPreferences user)" and "started task clk"
    and "getPriorityWeight (priority task) (type task) = NumberValue b"
  shows "\<exists>w. preferenceWeighted task user clk = Fin w \<and> real b \<le> w"
proof -
  let ?w = "userWeightPreferences user"
  let ?b = "real b"
  let ?S = "pref_priority ?w + pref_deadline ?w + pref_complexity ?w"
  let ?N = "?b * pref_priority ?w + ?b * urgencyFactor task clk * pref_deadline ?w
              + ?b * complexityFactor task * pref_complexity ?w"
  from assms(1) have d: "0 \<le> pref_deadline ?w" and p: "0 \<le> pref_priority ?w"
    and c: "0 \<le> pref_complexity ?w" and S: "0 < ?S"
    by (simp_all add: ratiosValid_def)
  have b: "0 \<le> ?b" by simp
  have "?b * 1 \<le> ?b * urgencyFactor task clk"
    using urgencyFactor_ge_1[OF assms(2)] b by (rule mult_left_mono)
  then have "?b * 1 * pref_deadline ?w \<le> ?b * urgencyFactor task clk * pref_deadline ?w"
    using d by (rule mult_right_mono)
  moreover have "?b * 1 \<le> ?b * complexityFactor task"
    using complexityFactor_ge_1[of task] b by (rule mult_left_mono)
  then have "?b * 1 * pref_complexity ?w \<le> ?b * complexityFactor task * pref_complexity ?w"
    using c by (rule mult_right_mono)
  ultimately have "?b * ?S \<le> ?N"
    by (simp add: distrib_left)
  then have le: "?b \<le> ?N / ?S"
    using S by (simp add: le_divide_eq)
  have "preferenceWeighted task user clk = jsDiv (Fin ?N) (Fin ?S)"
    by (rule preferenceWeighted_number[OF assms(3)])
  also have "\<dots> = Fin (?N / ?S)"
    using S by simp
  finally show ?thesis
    using le by blast
qed

lemma calculateDynamicWeight_ge_1:
  assumes "ratiosValid (userWeightPreferences user)" and "started task clk"
    and "baseIsNumber task"
  shows "\<exists>w. calculateDynamicWeight task user clk = Fin w \<and> 1 \<le> w"
proof -
  from assms(3) obtain b where g: "getPriorityWeight (priority task) (type task) = NumberValue b"
    by (cases "getPriorityWeight (priority task) (type task)") (simp_all add: baseIsNumber_def)
  then have "1 \<le> real b"
    using getPriorityWeight_pos[of "priority task" "type task" b] by simp
  moreover obtain w where w: "preferenceWeighted task user clk = Fin w" and "real b \<le> w"
    using preferenceWeighted_started[OF assms(1,2) g] by blast
  ultimately have pw: "1 \<le> w"
    by linarith
  have "\<exists>v. weightBeforeWorkload task user clk = Fin v \<and> 1 \<le> v"
  proof (cases "isProductiveHour user clk")
    case True
    then have "weightBeforeWorkload task user clk = Fin (w * (11 / 10))"
      using w by (simp add: weightBeforeWorkload_def)
    moreover have "1 \<le> w * (11 / 10)"
      using pw by simp
    ultimately show ?thesis
      by blast
  next
    case False
    then have "weightBeforeWorkload task user clk = Fin w"
      using w by (simp add: weightBeforeWorkload_def)
    with pw show ?thesis
      by blast
  qed
  then obtain v where v: "weightBeforeWorkload task user clk = Fin v" and wb: "1 \<le> v"
    by blast
  from wb have "1 \<le> v powr (12 / 10)"
    by (simp add: ge_one_powr_ge_zero)
  with wb v show ?thesis
    by (simp add: calculateDynamicWeight_def)
qed

lemma trackCompletion_weighted:
  "\<exists>f. 0 \<le> f \<and> f \<le> 1
      \<and> weightedCompletedSum (trackCompletion t (Fin w) a) = jsAdd (weightedCompletedSum a) (Fin (w * f))
      \<and> weightedTotalSum (trackCompletion t (Fin w) a) = jsAdd (weightedTotalSum a) (Fin w)"
proof (cases "nonEmpty (subTasks t)")
  case True
  obtain f where f: "completedWeight (calculateSubtaskContribution t) = Fin f" "0 \<le> f" "f \<le> 1"
    using completedWeight_bounds[of t] by blast
  with True show ?thesis
    by (intro exI[of _ f]) (simp add: trackCompletion_def Let_def totalWeight_one)
next
  case False
  then show ?thesis
    by (intro exI[of _ "if completed t then 1 else 0"]) (simp add: trackCompletion_def Let_def)
qed

lemma processTask_sums_ordered:
  assumes "ratiosValid (userWeightPreferences u)"
    and "\<not> skippedByTier ft t \<Longrightarrow> started t c \<and> baseIsNumber t"
    and "weightedCompletedSum a = Fin x" and "weightedTotalSum a = Fin y"
    and "0 \<le> x" and "x \<le> y"
  shows "\<exists>x' y'. weightedCompletedSum (processTask u c ft a t) = Fin x'
              \<and> weightedTotalSum (processTask u c ft a t) = Fin y' \<and> 0 \<le> x' \<and> x' \<le> y'"
proof (cases "skippedByTier ft t")
  case True
  with assms(3-6) show ?thesis
    by (simp add: processTask_def Let_def)
next
  case False
  then have "started t c" and "baseIsNumber t"
    using assms(2) by simp_all
  then obtain w where w: "calculateDynamicWeight t u c = Fin w" and w1: "1 \<le> w"
    using calculateDynamicWeight_ge_1[OF assms(1)] by blast
  let ?a = "trackEstimates t (if nonEmpty (blockedBy t)
              then (a\<lparr> totalTasks := totalTasks a + 1 \<rparr>)\<lparr> blockedTasks := blockedTasks a + 1 \<rparr>
              else a\<lparr> totalTasks := totalTasks a + 1 \<rparr>)"
  have p: "processTask u c ft a t = trackCompletion t (Fin w) ?a"
    using False w by (simp add: processTask_def Let_def)
  have sa: "weightedCompletedSum ?a = Fin x" "weightedTotalSum ?a = Fin y"
    using assms(3,4) by (simp_all add: trackEstimates_frame)
  obtain f where f: "0 \<le> f" "f \<le> 1"
    and cs: "weightedCompletedSum (trackCompletion t (Fin w) ?a) = jsAdd (weightedCompletedSum ?a) (Fin (w * f))"
    and ts: "weightedTotalSum (trackCompletion t (Fin w) ?a) = jsAdd (weightedTotalSum ?a) (Fin w)"
    using trackCompletion_weighted[of t w ?a] by blast
  have wf0: "0 \<le> w * f"
    using w1 f by (intro mult_nonneg_nonneg) simp_all
  have "w * f \<le> w * 1"
    using w1 f by (intro mult_left_mono) simp_all
  then have wfw: "w * f \<le> w"
    by simp
  have "weightedCompletedSum (processTask u c ft a t) = Fin (x + w * f)"
    by (simp only: p cs sa jsAdd.simps)
  moreover have "weightedTotalSum (processTask u c ft a t) = Fin (y + w)"
    by (simp only: p ts sa jsAdd.simps)
  moreover have "0 \<le> x + w * f"
    using assms(5) wf0 by simp
  moreover have "x + w * f \<le> y + w"
    using assms(6) wfw by simp
  ultimately show ?thesis
    by blast
qed

lemma foldl_sums_ordered:
  assumes "ratiosValid (userWeightPreferences u)"
    and "\<forall>t \<in> set ts. \<not> skippedByTier ft t \<longrightarrow> started t c \<and> baseIsNumber t"
    and "weightedCompletedSum a = Fin x" and "weightedTotalSum a = Fin y"
    and "0 \<le> x" and "x \<le> y"
  shows "\<exists>x' y'. weightedCompletedSum (foldl (processTask u c ft) a ts) = Fin x'
              \<and> weightedTotalSum (foldl (processTask u c ft) a ts) = Fin y' \<and> 0 \<le> x' \<and> x' \<le> y'"
  using assms(2-6)
proof (induction ts arbitrary: a x y)
  case Nil
  then show ?case by simp
next
  case (Cons t ts)
  have "\<not> skippedByTier ft t \<Longrightarrow> started t c \<and> baseIsNumber t"
    using Cons.prems(1) by simp
  then obtain x' y' where s: "weightedCompletedSum (processTask u c ft a t) = Fin x'"
      "weightedTotalSum (processTask u c ft a t) = Fin y'" "0 \<le> x'" "x' \<le> y'"
    using processTask_sums_ordered[OF assms(1) _ Cons.prems(2-5), of ft t c] by blast
  have r: "\<forall>t \<in> set ts. \<not> skippedByTier ft t \<longrightarrow> started t c \<and> baseIsNumber t"
    using Cons.prems(1) by simp
  show ?case
    using Cons.IH[OF r s] by simp
qed

lemma percentage_in_range_for_started_tasks:
  assumes "ratiosValid (userWeightPreferences user)"
    and "\<forall>t \<in> set (processedTasks user filterType dateRange). started t clk \<and> baseIsNumber t"
    and "weightedTotalSum (accumulate user filterType dateRange clk) \<noteq> Fin 0"
  shows "\<exists>p. percentage (calculateRTP user filterType dateRange clk) = Fin p \<and> 0 \<le> p \<and> p \<le> 100"
proof -
  let ?acc = "accumulate user filterType dateRange clk"
  have h: "\<forall>t \<in> set (filteredTasks user dateRange).
             \<not> skippedByTier filterType t \<longrightarrow> started t clk \<and> baseIsNumber t"
    using assms(2) by (simp add: processedTasks_def)
  have "\<exists>x y. weightedCompletedSum ?acc = Fin x \<and> weightedTotalSum ?acc = Fin y \<and> 0 \<le> x \<and> x \<le> y"
    unfolding accumulate_def
    by (rule foldl_sums_ordered[OF assms(1) h, of initialSums 0 0]) (simp_all add: initialSums_def)
  then obtain x y where xy: "weightedCompletedSum ?acc = Fin x" "weightedTotalSum ?acc = Fin y"
      "0 \<le> x" "x \<le> y"
    by blast
  with assms(3) have pos: "0 < y"
    by simp
  have "percentage (calculateRTP user filterType dateRange clk) = Fin (x / y * 100)"
    using assms(3) xy pos by (simp add: calculateRTP_def Let_def)
  moreover have "0 \<le> x / y * 100"
    using xy pos by simp
  moreover have "x / y * 100 \<le> 100"
    using xy pos by (simp add: divide_le_eq)
  ultimately show ?thesis
    by blast
qed

lemma weight_monotone_in_priority_for_started_task:
  assumes "ratiosValid (userWeightPreferences user)" and "started task clk"
    and "validPriority p" and "validPriority q" and "p \<le> q"
  shows "\<exists>v w. calculateDynamicWeight (task\<lparr> priority := Some p \<rparr>) user clk = Fin v
             \<and> calculateDynamicWeight (task\<lparr> priority := Some q \<rparr>) user clk = Fin w
             \<and> v \<le> w"
proof -
  let ?w = "userWeightPreferences user"
  let ?S = "pref_priority ?w + pref_deadline ?w + pref_complexity ?w"
  let ?K = "(pref_priority ?w + urgencyFactor task clk * pref_deadline ?w
              + complexityFactor task * pref_complexity ?w) / ?S"
  from assms(1) have d: "0 \<le> pref_deadline ?w" and pp: "0 \<le> pref_priority ?w"
    and c: "0 \<le> pref_complexity ?w" and S: "0 < ?S"
    by (simp_all add: ratiosValid_def)
  have u: "0 \<le> urgencyFactor task clk"
    using urgencyFactor_ge_1[OF assms(2)] by simp
  have cf: "0 \<le> complexityFactor task"
    using complexityFactor_ge_1[of task] by simp
  have K: "0 \<le> ?K"
    using d pp c S u cf by (intro divide_nonneg_pos add_nonneg_nonneg mult_nonneg_nonneg)
  have uf: "urgencyFactor (task\<lparr> priority := x \<rparr>) clk = urgencyFactor task clk" for x
    by (simp add: urgencyFactor_def overdueMultiplier_def durationFactor_def timeRemaining_def
        totalTaskDuration_def)
  have cx: "complexityFactor (task\<lparr> priority := x \<rparr>) = complexityFactor task" for x
    by (simp add: complexityFactor_def)
  have pw: "preferenceWeighted (task\<lparr> priority := Some n \<rparr>) user clk = Fin (real n * ?K)"
    if "1 \<le> n" for n
  proof -
    have "real n * pref_priority ?w + real n * urgencyFactor task clk * pref_deadline ?w
            + real n * complexityFactor task * pref_complexity ?w
          = real n * (pref_priority ?w + urgencyFactor task clk * pref_deadline ?w
                        + complexityFactor task * pref_complexity ?w)"
      by (simp add: distrib_left mult.assoc)
    then show ?thesis
      using that S by (simp add: preferenceWeighted_def Let_def uf cx)
  qed
  have mono: "\<exists>v w. (if b then mathPow12 (Fin x) else Fin x) = Fin v
                 \<and> (if b then mathPow12 (Fin y) else Fin y) = Fin w \<and> v \<le> w"
    if "0 \<le> x" and "x \<le> y" for b x y
  proof -
    have "x powr (12 / 10) \<le> y powr (12 / 10)"
      using that by (intro powr_mono2) simp_all
    with that show ?thesis
      by (cases b) simp_all
  qed
  have p1: "1 \<le> p" and q: "1 \<le> q"
    using assms(3,4) by (simp_all add: validPriority_def)
  have le: "real p * ?K \<le> real q * ?K"
    using assms(5) K by (intro mult_right_mono) simp_all
  have ge: "0 \<le> real p * ?K"
    using K by (intro mult_nonneg_nonneg) simp_all
  show ?thesis
  proof (cases "isProductiveHour user clk")
    case True
    have ge': "0 \<le> real p * ?K * (11 / 10)"
      by (rule mult_nonneg_nonneg[OF ge]) simp
    have le': "real p * ?K * (11 / 10) \<le> real q * ?K * (11 / 10)"
      by (rule mult_right_mono[OF le]) simp
    from mono[OF ge' le'] True show ?thesis
      by (simp only: calculateDynamicWeight_def weightBeforeWorkload_def pw[OF p1] pw[OF q]
          if_True jsMul.simps)
  next
    case False
    from mono[OF ge le] False show ?thesis
      by (simp only: calculateDynamicWeight_def weightBeforeWorkload_def pw[OF p1] pw[OF q]
          if_False)
  qed
qed

lemma started_hypotheses_hold:
  "ratiosValid (userWeightPreferences plannerUser)
   \<and> processedTasks plannerUser None (Some pastRange) = [finishedTask]
   \<and> started finishedTask clockEpoch
   \<and> baseIsNumber finishedTask
   \<and> weightedTotalSum (accumulate plannerUser None (Some pastRange) clockEpoch) = Fin 7
   \<and> validPriority 1 \<and> validPriority 10"
proof -
  have r: "ratiosValid (userWeightPreferences plannerUser)"
    by (simp add: ratiosValid_def userWeightPreferences_def plannerUser_def
        defaultWeightPreferences_def)
  have f: "filteredTasks plannerUser (Some pastRange) = [finishedTask]"
    by (simp add: filteredTasks_def plannerUser_def inDateRange_def
        pastRange_def finishedTask_def futureTask_def plainTask_def msPerDay_def)
  then have p: "processedTasks plannerUser None (Some pastRange) = [finishedTask]"
    by (simp add: processedTasks_def)
  have s: "started finishedTask clockEpoch"
    by (simp add: started_def finishedTask_def plainTask_def clock_defs)
  have b: "baseIsNumber finishedTask"
    by (simp add: baseIsNumber_def finishedTask_def plainTask_def baseTaskWeight_def)
  have n: "\<not> nonEmpty (subTasks finishedTask)"
    by (simp add: finishedTask_def plainTask_def)
  have w: "weightedTotalSum (accumulate plannerUser None (Some pastRange) clockEpoch) = Fin 7"
    by (rule accumulate_single[OF f _ n weight_finishedTask]) simp
  show ?thesis
    using r p s b w by (simp add: validPriority_def)
qed

section \<open>The classifier on a text without keywords\<close>

lemma keywordHits_none:
  "\<forall>k \<in> set ks. \<not> includesStr txt k \<Longrightarrow> keywordHits txt ks = 0"
  by (simp add: keywordHits_def)

lemma includesStr_subset: "includesStr str k \<Longrightarrow> set k \<subseteq> set str"
proof (induction str)
  case Nil
  then show ?case by simp
next
  case (Cons c cs)
  from Cons.prems have "take (length k) (c # cs) = k \<or> includesStr cs k"
    by simp
  then show ?case
  proof
    assume "take (length k) (c # cs) = k"
    then have "set k = set (take (length k) (c # cs))"
      by simp
    then show ?thesis
      using set_take_subset[of "length k" "c # cs"] by simp
  next
    assume "includesStr cs k"
    then have "set k \<subseteq> set cs"
      by (rule Cons.IH)
    then show ?thesis by auto
  qed
qed

lemma lower_name: "map toLowerChar ''Big job'' = ''big job''"
  by code_simp

lemma lower_x: "toLowerChar CHR ''x'' = CHR ''x''"
  by (simp add: toLowerChar_def)

lemma planning_text:
  "classifierText planningTask = ''big job '' @ replicate 400 CHR ''x''"
  using lower_name
  by (simp add: classifierText_def planningTask_def toLowerCase_def lower_x toLowerChar_def)

lemma planning_keywords:
  "\<forall>k \<in> set (highPriorityKeywords @ midPriorityKeywords @ lowPriorityKeywords).
     \<not> includesStr (classifierText planningTask) k"
proof
  fix k
  assume k: "k \<in> set (highPriorityKeywords @ midPriorityKeywords @ lowPriorityKeywords)"
  have "set (classifierText planningTask)
          = {CHR ''b'', CHR ''i'', CHR ''g'', CHR '' '', CHR ''j'', CHR ''o'', CHR ''x''}"
    by (auto simp add: planning_text)
  moreover have "\<not> set k \<subseteq> {CHR ''b'', CHR ''i'', CHR ''g'', CHR '' '', CHR ''j'', CHR ''o'', CHR ''x''}"
    using k
    by (auto simp add: highPriorityKeywords_def midPriorityKeywords_def lowPriorityKeywords_def)
  ultimately show "\<not> includesStr (classifierText planningTask) k"
    using includesStr_subset[of "classifierText planningTask" k] by blast
qed

section \<open>Claims\<close>

text \<open>
  C1. The claim: for a user whose three preference ratios are nonnegative with a positive
  sum, at a fixed evaluation time, whenever \<open>weightedTotalSum\<close> is not zero the
  percentage returned by \<open>calculateRTP\<close> lies between 0 and 100. The code keeps this
  when every processed task has started and has a number for base weight
  (\<open>percentage_in_range_for_started_tasks\<close>), and breaks it otherwise: for a task that has not started yet the proportion of time
  remaining exceeds 1, the urgency factor of lines 164-168 falls below 0 and so does the
  dynamic weight. With the default ratios, one completed task that was due yesterday
  (weight 7) and one open task planned in ten days (weight - 2), the sums are 7 and 5
  and the percentage is 140.
\<close>

theorem percentage_of_planned_task_is_140:
  "ratiosValid (userWeightPreferences plannerUser)
   \<and> calculateDynamicWeight finishedTask plannerUser clockEpoch = Fin 7
   \<and> calculateDynamicWeight futureTask plannerUser clockEpoch = Fin (- 2)
   \<and> weightedTotalSum (accumulate plannerUser None None clockEpoch) = Fin 5
   \<and> percentage (calculateRTP plannerUser None None clockEpoch) = Fin 140"
proof -
  have r: "ratiosValid (userWeightPreferences plannerUser)"
    by (simp add: ratiosValid_def userWeightPreferences_def plannerUser_def
        defaultWeightPreferences_def)
  have t: "weightedTotalSum (accumulate plannerUser None None clockEpoch) = Fin 5"
    by (simp add: sums_plannerUser initialSums_def)
  have p: "percentage (calculateRTP plannerUser None None clockEpoch) = Fin 140"
    by (simp add: calculateRTP_def sums_plannerUser initialSums_def)
  show ?thesis
    by (intro conjI r weight_finishedTask weight_futureTask_plain t p)
qed

text \<open>
  C2. The claim as stated, that an overload factor above 1 always brings the power 1.2,
  fails for a user who declares no capacity: the analyzer then reports the load against
  the default capacity of 5, and line 211 skips the adjustment. Six open overdue tasks
  give an overload factor of 6/5, and each task keeps the weight 7.
\<close>

theorem overload_without_capacity_keeps_weight:
  "lateTask \<in> set (tasks crowdedUser)
   \<and> overloadFactor (calculateWorkloadMetrics crowdedUser clockEpoch) = 6 / 5
   \<and> calculateDynamicWeight lateTask crowdedUser clockEpoch = Fin 7
   \<and> mathPow12 (weightBeforeWorkload lateTask crowdedUser clockEpoch) \<noteq> Fin 7"
proof -
  have "calculateDynamicWeight lateTask crowdedUser clockEpoch = Fin 7"
    by (simp add: calculateDynamicWeight_def capacityDeclared_def before_workload_crowded)
       (simp add: crowdedUser_def)
  then show ?thesis
    using seven_powr
    by (simp add: overload_crowded before_workload_crowded) (simp add: crowdedUser_def)
qed

text \<open>
  C2, amended. For a user who declares a workload capacity other than zero, whenever
  the analyzer reports an overload factor above 1, the dynamic weight of every task is
  the weight of steps 1-4 raised to the power 1.2 by \<^verbatim>\<open>Math.pow\<close>.
\<close>

theorem overload_with_capacity_raises_weight:
  assumes "preferences user = Some prefs"
    and "workloadCapacity prefs = Some capacity"
    and "capacity \<noteq> 0"
    and "overloadFactor (calculateWorkloadMetrics user clk) > 1"
  shows "calculateDynamicWeight task user clk = mathPow12 (weightBeforeWorkload task user clk)"
  using assms by (simp add: calculateDynamicWeight_def capacityDeclared_def)

theorem overload_with_capacity_raises_weight_witness:
  "overloadFactor (calculateWorkloadMetrics busyUser clockEpoch) = 2
   \<and> lateTask \<in> set (tasks busyUser)
   \<and> calculateDynamicWeight lateTask busyUser clockEpoch = Fin (7 powr (12 / 10))"
proof -
  have p: "preferences busyUser =
      Some \<lparr> productiveHours = None, workloadCapacity = Some 1, weightPreferences = None \<rparr>"
    by (simp add: busyUser_def)
  have o: "overloadFactor (calculateWorkloadMetrics busyUser clockEpoch) > 1"
    by (simp add: overload_busy)
  have "calculateDynamicWeight lateTask busyUser clockEpoch = Fin (7 powr (12 / 10))"
    using overload_with_capacity_raises_weight[OF p _ _ o, of 1 lateTask]
    by (simp add: before_workload_busy)
  then show ?thesis
    by (simp add: overload_busy) (simp add: busyUser_def)
qed

text \<open>
  C3. The claim as stated, that a task skipped by the tier filter still counts as a
  blocked task, fails: the blocked count of lines 54-56 comes after the return of line
  51. A blocked task of tier LOW under the filter HIGH is counted in \<open>totalTasks\<close> and
  not in \<open>blockedTasks\<close>.
\<close>

theorem skipped_tier_not_counted_as_blocked:
  "skippedByTier (Some HIGH) blockedLowTask
   \<and> nonEmpty (blockedBy blockedLowTask)
   \<and> filteredTasks blockedUser None = [blockedLowTask]
   \<and> totalTasks (accumulate blockedUser (Some HIGH) None clockEpoch) = 1
   \<and> blockedTasks (accumulate blockedUser (Some HIGH) None clockEpoch) = 0"
  by (simp add: accumulate_counts processedTasks_def filteredTasks_def blockedUser_def)
     (simp add: blockedLowTask_def plainTask_def)

text \<open>
  C3, amended. A task of a tier other than the filter's that passed the date-range
  filter changes nothing but \<open>totalTasks\<close>, which it increments: it is left out of the
  weighted sums, of the time totals, of the completed count and of the blocked count.
  Over the whole loop \<open>totalTasks\<close> is the number of tasks in the date range and
  \<open>blockedTasks\<close> the number of blocked tasks among the processed ones.
\<close>

theorem skipped_tier_only_counts_in_totalTasks:
  assumes "skippedByTier filterType task"
  shows "processTask user clk filterType acc task = acc\<lparr> totalTasks := totalTasks acc + 1 \<rparr>
       \<and> totalTasks (accumulate user filterType dateRange clk) = length (filteredTasks user dateRange)
       \<and> blockedTasks (accumulate user filterType dateRange clk) =
           length (filter (\<lambda>t. nonEmpty (blockedBy t)) (processedTasks user filterType dateRange))"
  using assms
  by (simp add: processTask_skipped accumulate_counts)

theorem skipped_tier_only_counts_in_totalTasks_witness:
  "skippedByTier (Some HIGH) blockedLowTask
   \<and> processTask blockedUser clockEpoch (Some HIGH) initialSums blockedLowTask
       = initialSums\<lparr> totalTasks := 1 \<rparr>"
proof -
  have s: "skippedByTier (Some HIGH) blockedLowTask"
    by (simp add: blockedLowTask_def plainTask_def)
  show ?thesis
    using skipped_tier_only_counts_in_totalTasks[OF s, of blockedUser clockEpoch initialSums] s
    by (simp add: initialSums_def)
qed

text \<open>
  C4. The claim as stated, that a start time equal to the end of the range is excluded,
  fails: line 41 compares with \<open>\<le>\<close>. Of three tasks starting at the first instant of
  the range, at its end and one millisecond after its end, the first two are processed.
\<close>

theorem task_starting_at_range_end_is_processed:
  "startDateTime midnightTask = dr_end todayRange
   \<and> filteredTasks calendarUser (Some todayRange) = [dawnTask, midnightTask]
   \<and> totalTasks (accumulate calendarUser None (Some todayRange) clockEpoch) = 2"
proof -
  have f: "filteredTasks calendarUser (Some todayRange) = [dawnTask, midnightTask]"
    by (simp add: filteredTasks_def calendarUser_def inDateRange_def todayRange_def
        dawnTask_def midnightTask_def nextDayTask_def plainTask_def msPerDay_def)
  show ?thesis
    by (simp add: accumulate_counts f)
       (simp add: midnightTask_def plainTask_def todayRange_def)
qed

text \<open>
  C4, amended. With a date range a task is processed if and only if its start timestamp
  lies in the closed interval from the start to the end of the range, both included.
\<close>

theorem date_range_is_closed_interval:
  "(t \<in> set (filteredTasks user (Some r)) \<longleftrightarrow>
      t \<in> set (tasks user) \<and> dr_start r \<le> startDateTime t \<and> startDateTime t \<le> dr_end r)
   \<and> totalTasks (accumulate user filterType (Some r) clk) =
       length (filter (\<lambda>t. dr_start r \<le> startDateTime t \<and> startDateTime t \<le> dr_end r)
                      (tasks user))"
  by (auto simp add: accumulate_counts filteredTasks_def inDateRange_def cong: filter_cong)

theorem date_range_is_closed_interval_witness:
  "dawnTask \<in> set (filteredTasks calendarUser (Some todayRange))
   \<and> midnightTask \<in> set (filteredTasks calendarUser (Some todayRange))
   \<and> nextDayTask \<notin> set (filteredTasks calendarUser (Some todayRange))"
  using date_range_is_closed_interval[of dawnTask calendarUser todayRange None clockEpoch]
    date_range_is_closed_interval[of midnightTask calendarUser todayRange None clockEpoch]
    date_range_is_closed_interval[of nextDayTask calendarUser todayRange None clockEpoch]
  by (simp add: calendarUser_def todayRange_def dawnTask_def midnightTask_def nextDayTask_def
      plainTask_def msPerDay_def)

text \<open>
  C5. A processed task increments \<open>completedTasks\<close> if and only if it has no subtasks
  and is completed, or it has at least one subtask, all its subtasks are completed and
  its own flag is set; a task whose subtasks are all completed and whose own flag is
  not set is not counted.
\<close>

theorem completed_tasks_counting:
  assumes "\<not> skippedByTier filterType task"
  shows "completedTasks (processTask user clk filterType acc task) =
           completedTasks acc +
             (if (\<not> nonEmpty (subTasks task) \<and> completed task)
                 \<or> (nonEmpty (subTasks task)
                     \<and> (\<forall>s \<in> set (orEmpty (subTasks task)). sub_completed s)
                     \<and> completed task)
              then 1 else 0)"
  using assms by (simp add: processTask_counts countsAsCompleted_def list_all_iff)

theorem completed_tasks_counting_witness:
  "completedTasks (processTask plannerUser clockEpoch None initialSums closedTask) = 1
   \<and> completedTasks (processTask plannerUser clockEpoch None initialSums halfClosedTask) = 0
   \<and> completedTasks (processTask plannerUser clockEpoch None initialSums finishedTask) = 1"
  using completed_tasks_counting[of None closedTask plannerUser clockEpoch initialSums]
    completed_tasks_counting[of None halfClosedTask plannerUser clockEpoch initialSums]
    completed_tasks_counting[of None finishedTask plannerUser clockEpoch initialSums]
  by (simp add: closedTask_def halfClosedTask_def finishedTask_def plainTask_def initialSums_def)




text \<open>
  C7. For an overdue task (its deadline strictly before the evaluation time) the urgency
  factor is the minimum of 3 and 1 plus the time overdue divided by the total duration,
  where a total duration of zero is replaced by one day; so it is at most 3.
\<close>

theorem overdue_urgency_capped:
  assumes "endDateTime task < now clk"
  shows "urgencyFactor task clk =
           min 3 (1 + real_of_int (now clk - endDateTime task)
                        / real_of_int (if endDateTime task - startDateTime task = 0 then msPerDay
                                       else endDateTime task - startDateTime task))
         \<and> urgencyFactor task clk \<le> 3"
proof -
  from assms have neg: "timeRemaining task clk < 0"
    by (simp add: timeRemaining_def)
  have "\<bar>real_of_int (timeRemaining task clk)\<bar> = real_of_int (now clk - endDateTime task)"
    using assms by (simp add: timeRemaining_def)
  then have "urgencyFactor task clk =
           min 3 (1 + real_of_int (now clk - endDateTime task)
                        / real_of_int (if endDateTime task - startDateTime task = 0 then msPerDay
                                       else endDateTime task - startDateTime task))"
    using neg by (simp add: urgencyFactor_def overdueMultiplier_def totalTaskDuration_def)
  then show ?thesis by simp
qed

theorem overdue_urgency_capped_witness:
  "endDateTime finishedTask < now clockEpoch \<and> urgencyFactor finishedTask clockEpoch = 2"
  using overdue_urgency_capped[of finishedTask clockEpoch]
  by (simp add: finishedTask_def plainTask_def clock_defs)

text \<open>
  C8. The claim: raising the explicit priority of a task, all else fixed, never lowers
  its dynamic weight. The code keeps this for a task that has started
  (\<open>weight_monotone_in_priority_for_started_task\<close>), and breaks it for a task that has
  not: the negative urgency factor makes the weight a negative multiple of the priority.
  For the one-day task planned in ten days and the default ratios, priority 1 weighs
  - 1 and priority 10 weighs - 10.
\<close>

theorem higher_priority_lowers_weight_of_planned_task:
  "calculateDynamicWeight (futureTask\<lparr>priority := Some 1\<rparr>) plannerUser clockEpoch = Fin (- 1)
   \<and> calculateDynamicWeight (futureTask\<lparr>priority := Some 10\<rparr>) plannerUser clockEpoch = Fin (- 10)"
  using weight_futureTask[of "Some 1" 1] weight_futureTask[of "Some 10" 10] by simp

text \<open>
  C9. A partial task with a description of 400 characters, six subtasks and a duration
  of 30 hours (both timestamps present), whose name and description contain none of the
  keywords, with no collaborators, no blocking tasks and no estimated minutes, gets the
  scores HIGH = 10 (3 + 4 + 3), MID = 0 and LOW = 0, and is classified HIGH with
  priority 9.
\<close>

theorem classify_large_task:
  assumes descr: "length (strOrEmpty (pt_description task)) = 400"
    and subs: "length (orEmpty (pt_subTasks task)) = 6"
    and start: "pt_startDateTime task = Some startMs"
    and finish: "pt_endDateTime task = Some endMs"
    and hours: "endMs - startMs = 30 * msPerHour"
    and nokw: "\<forall>k \<in> set (highPriorityKeywords @ midPriorityKeywords @ lowPriorityKeywords).
                     \<not> includesStr (classifierText task) k"
    and collab: "\<not> nonEmpty (pt_collaborators task)"
    and blocked: "\<not> nonEmpty (pt_blockedBy task)"
    and estimate: "\<not> truthyReal (pt_estimatedMinutes task)"
  shows "classifyScores task = \<lparr> scoreLOW = 0, scoreMID = 0, scoreHIGH = 10 \<rparr>
       \<and> classifyTask task = \<lparr> cl_type = HIGH, cl_priority = 9 \<rparr>"
proof -
  let ?s0 = "\<lparr> scoreLOW = 0, scoreMID = 0, scoreHIGH = 0 \<rparr>"
  have r1: "ruleDescription task ?s0 = \<lparr> scoreLOW = 0, scoreMID = 0, scoreHIGH = 3 \<rparr>"
    using descr by (simp add: ruleDescription_def)
  have r2: "ruleSubtasks task \<lparr> scoreLOW = 0, scoreMID = 0, scoreHIGH = 3 \<rparr>
              = \<lparr> scoreLOW = 0, scoreMID = 0, scoreHIGH = 7 \<rparr>"
    using subs by (simp add: ruleSubtasks_def)
  have r3: "ruleDuration task \<lparr> scoreLOW = 0, scoreMID = 0, scoreHIGH = 7 \<rparr>
              = \<lparr> scoreLOW = 0, scoreMID = 0, scoreHIGH = 10 \<rparr>"
    using start finish hours by (simp add: ruleDuration_def msPerHour_def)
  have k: "keywordHits (classifierText task) highPriorityKeywords = 0"
    "keywordHits (classifierText task) midPriorityKeywords = 0"
    "keywordHits (classifierText task) lowPriorityKeywords = 0"
    using nokw by (simp_all add: keywordHits_none)
  have r4: "ruleKeywords task \<lparr> scoreLOW = 0, scoreMID = 0, scoreHIGH = 10 \<rparr>
              = \<lparr> scoreLOW = 0, scoreMID = 0, scoreHIGH = 10 \<rparr>"
    by (simp add: ruleKeywords_def k)
  have r5: "ruleCollaborators task s = s" for s
    using collab by (cases "pt_collaborators task") (simp_all add: ruleCollaborators_def)
  have r6: "ruleBlocked task s = s" for s
    using blocked by (simp add: ruleBlocked_def)
  have r7: "ruleEstimate task s = s" for s
    using estimate by (simp add: ruleEstimate_def)
  have scores: "classifyScores task = \<lparr> scoreLOW = 0, scoreMID = 0, scoreHIGH = 10 \<rparr>"
    by (simp only: classifyScores_def r1 r2 r3 r4 r5 r6 r7)
  have tier: "scoresTier \<lparr> scoreLOW = 0, scoreMID = 0, scoreHIGH = 10 \<rparr> = HIGH"
    by (simp add: scoresTier_def)
  have prio: "scoresPriority \<lparr> scoreLOW = 0, scoreMID = 0, scoreHIGH = 10 \<rparr> = 9"
    by (simp add: scoresPriority_def mathRound_def)
  show ?thesis
    by (simp add: classifyTask_def scores tier prio)
qed

theorem classify_large_task_witness:
  "length (strOrEmpty (pt_description planningTask)) = 400
   \<and> length (orEmpty (pt_subTasks planningTask)) = 6
   \<and> classifyTask planningTask = \<lparr> cl_type = HIGH, cl_priority = 9 \<rparr>"
proof -
  have d: "length (strOrEmpty (pt_description planningTask)) = 400"
    by (simp add: planningTask_def)
  have s: "length (orEmpty (pt_subTasks planningTask)) = 6"
    by (simp add: planningTask_def)
  have st: "pt_startDateTime planningTask = Some 0"
    by (simp add: planningTask_def)
  have en: "pt_endDateTime planningTask = Some (30 * msPerHour)"
    by (simp add: planningTask_def)
  have h: "30 * msPerHour - 0 = 30 * msPerHour"
    by simp
  have c: "\<not> nonEmpty (pt_collaborators planningTask)"
    by (simp add: planningTask_def)
  have b: "\<not> nonEmpty (pt_blockedBy planningTask)"
    by (simp add: planningTask_def)
  have e: "\<not> truthyReal (pt_estimatedMinutes planningTask)"
    by (simp add: planningTask_def)
  show ?thesis
    using classify_large_task[OF d s st en h planning_keywords c b e] d s by simp
qed

text \<open>
  C10. The claim: for a task with at least one subtask every subtask weight is a number
  that is at least 1, so the total subtask weight is positive, the unweighted fallback
  of lines 268-273 is never taken and the completed weight is the priority-weighted
  ratio. The code keeps this for ordinary subtasks
  (\<open>weighted_ratio_for_ordinary_subtasks\<close>), and breaks it for a subtask without a
  priority whose label is a key of \<^verbatim>\<open>Object.prototype\<close>: the lookup of line 17 finds
  the inherited member, which is truthy, so \<open>getPriorityWeight\<close> returns it in place of
  the default 5, although it is declared to return a number. Line 252 then turns the
  total into a string, the comparison of line 260 is false and the fallback is taken.
  For a completed subtask labelled \<^verbatim>\<open>constructor\<close> and an open subtask of tier LOW the
  code returns 1/2, where the weighted ratio with the default weight 5 is 5/7.
\<close>

theorem inherited_label_reaches_fallback:
  "nonEmpty (subTasks inheritedLabelTask)
   \<and> subtaskWeight \<lparr> sub_completed = True, sub_type = ''constructor'', sub_priority = None \<rparr>
       = ObjectMember ''constructor''
   \<and> snd (sumSubtaskWeights (orEmpty (subTasks inheritedLabelTask)) (NumberSum 0) (NumberSum 0))
       = StringSum
   \<and> completedWeight (calculateSubtaskContribution inheritedLabelTask) = Fin (1 / 2)
   \<and> real (sum_list (map statedWeight (filter sub_completed (orEmpty (subTasks inheritedLabelTask)))))
       / real (sum_list (map statedWeight (orEmpty (subTasks inheritedLabelTask)))) = 5 / 7"
  by (simp add: inheritedLabelTask_def plainTask_def calculateSubtaskContribution_def Let_def
      subtaskWeight_def baseTaskWeight_def objectPrototypeKeys_def statedWeight_def)

end
